theory Spec2Isabelle
  imports Main "HOL-Library.Sublist"
begin

section \<open>Common vocabulary: errors, log records, torch dtypes\<close>

text \<open>
  The Python of \<^verbatim>\<open>modeling_auto.py\<close> signals failure in two ways: it raises
  (\<^verbatim>\<open>ValueError\<close>, a failed \<^verbatim>\<open>assert\<close>, a lookup of a missing key or attribute,
  an operation on \<^verbatim>\<open>None\<close>), or it logs an error and calls \<^verbatim>\<open>exit(0)\<close>. Each is a constructor of \<open>error\<close>.
  Calls of \<^verbatim>\<open>logger.info/warning/error\<close> are kept as a list of records, oldest first;
  a message is the source's text (a long one is cut after its first sentence).
\<close>

datatype error =
    ValueError string
  | AssertionError string
  | AttributeError string
  | KeyError string
  | TypeError string
  | RuntimeError string
  | UnboundLocalError string
  | SystemExit

datatype log_level = LInfo | LWarning | LError

type_synonym log = "(log_level \<times> string) list"

datatype torch_dtype = Float32 | Float16 | BFloat16 | Int8

section \<open>Reload: dtype resolution and skeleton allocation in \<open>load_low_bit\<close>\<close>

text \<open>
  The persisted \<^verbatim>\<open>config.quantization_config\<close>: the entries that \<^verbatim>\<open>load_low_bit\<close>
  and \<^verbatim>\<open>build_woq_model\<close> read and write, before and after \<^verbatim>\<open>from_dict\<close>. A missing
  \<^verbatim>\<open>quant_method\<close> key, a field that is \<^verbatim>\<open>None\<close> and an attribute that
  \<^verbatim>\<open>getattr\<close> does not find are \<open>None\<close>.
\<close>

record quantization_config =
  quant_method :: "string option"
  bits :: "int option"
  weight_dtype :: "string option"
  scale_dtype :: "string option"
  compute_dtype :: "string option"
  group_size :: int
  zero_point :: "bool option"
  sym :: "bool option"

text \<open>
  Lines 1791-1805: which allocator builds the empty-weight skeleton. The list is the
  literal of the source (it holds \<^verbatim>\<open>"fp4"\<close>, which \<open>weight_dtypes\<close> does not).
\<close>

datatype allocator = Build_woq_model | Replace_linear

definition skeleton_excluded :: "string list" where
  "skeleton_excluded = [''fp8_e5m2'', ''fp8_e4m3'', ''fp4'', ''nf4'', ''int4_fullrange'']"

definition skeleton_allocator :: "string \<Rightarrow> allocator" where
  "skeleton_allocator w =
     (if w \<notin> set skeleton_excluded then Build_woq_model else Replace_linear)"

text \<open>
  What the host and the code outside this file contribute, as parameters:
  \<^verbatim>\<open>CpuInfo().bf16\<close>; \<^verbatim>\<open>convert_dtype_torch2str\<close> (imported from
  \<^verbatim>\<open>..llm.quantization.utils\<close>); the \<^verbatim>\<open>from_dict\<close> of the config class that belongs to a
  method tag (lines 1435-1450), which may reject the persisted entries or rewrite them;
  and the exception, if any, that instantiating the model and calling the chosen
  allocator on it raise for the resolved config (lines 1784-1805).
\<close>

record host =
  cpu_bf16 :: bool
  convert_dtype_torch2str :: "torch_dtype \<Rightarrow> string"
  class_from_dict :: "string \<Rightarrow> quantization_config \<Rightarrow> error + quantization_config"
  allocation_error :: "allocator \<Rightarrow> quantization_config \<Rightarrow> error option"

text \<open>Lines 1435-1450: the tags for which a config class is built from the dict.\<close>

definition config_classes :: "string list" where
  "config_classes =
     [''rtn'', ''awq'', ''teq'', ''gptq'', ''autoround'', ''static'', ''dynamic'', ''qat'']"

text \<open>Lines 1725-1740: \<^verbatim>\<open>compute_dtype\<close>.\<close>

definition resolve_compute_dtype ::
  "host \<Rightarrow> bool \<Rightarrow> bool \<Rightarrow> torch_dtype option \<Rightarrow> string option \<Rightarrow> string" where
  "resolve_compute_dtype h use_cpu use_xpu torch_dtype cd =
     (case cd of
        None \<Rightarrow>
          (if use_xpu then
             (if torch_dtype = None \<or> torch_dtype = Some BFloat16 then ''fp16''
              else convert_dtype_torch2str h (the torch_dtype))
           else
             (if torch_dtype = None
                 \<or> (\<not> cpu_bf16 h \<and> torch_dtype = Some BFloat16)
                 \<or> torch_dtype = Some Float16 then ''fp32''
              else convert_dtype_torch2str h (the torch_dtype)))
      | Some c \<Rightarrow>
          (if (\<not> cpu_bf16 h \<and> c = ''bf16'') \<or> (use_cpu \<and> c = ''fp16'') then ''fp32''
           else c))"

text \<open>Lines 1742-1747: \<^verbatim>\<open>scale_dtype\<close>, with the warnings it logs.\<close>

definition scale_dtypes :: "string list" where
  "scale_dtypes = [''fp32'', ''fp16'', ''bf16'']"

definition resolve_scale_dtype :: "string option \<Rightarrow> log \<times> string" where
  "resolve_scale_dtype sd =
     (let s = (case sd of None \<Rightarrow> ''fp32'' | Some s \<Rightarrow> s) in
      if s \<notin> set scale_dtypes then
        ([(LWarning, ''scale_dtype only supports fp32, bf16, fp16.''),
          (LWarning,
           ''fp32 scale_dtype is used, please change the config.json if you don't want to use it.'')],
         ''fp32'')
      else ([], s))"

text \<open>Lines 1749-1783: \<^verbatim>\<open>weight_dtype\<close>; the only \<^verbatim>\<open>raise\<close> of the block.\<close>

definition weight_dtypes :: "string list" where
  "weight_dtypes =
     [''int4_fullrange'', ''int4_clip'', ''int8'', ''fp8_e5m2'', ''fp8_e4m3'', ''nf4'',
      ''fp4_e2m1_bnb'', ''fp4_e2m1'']"

definition weight_dtype_message :: string where
  "weight_dtype_message =
     ''weight_dtype must be a string in int8, int4_fullrange, int4_clip, nf4, fp4_e2m1_bnb, fp4_e2m1, fp8_e5m2, fp8_e4m3''"

definition resolve_weight_dtype :: "int option \<Rightarrow> string option \<Rightarrow> log \<times> (error + string)" where
  "resolve_weight_dtype b wd =
     (case wd of
        None \<Rightarrow>
          (if b = Some 4 then
             ([(LInfo, ''int4_clip quantization weight_dtype is used due to bits is 4 in config.json.'')],
              Inr ''int4_clip'')
           else if b = Some 8 then
             ([(LInfo, ''int8 quantization weight_dtype is used due to bits is 8 in config.json.'')],
              Inr ''int8'')
           else
             ([(LWarning, ''bits number only supports 4, 8.''),
               (LWarning,
                ''int4_clip weight_dtype is used, please change the config.json if you don't want to use it.'')],
              Inr ''int4_clip''))
      | Some w \<Rightarrow>
          (if w \<notin> set weight_dtypes then
             ([(LWarning, ''Please provide the correct bits number or weight_dtype in config.json.'')],
              Inl (ValueError weight_dtype_message))
           else ([(LInfo, w @ '' quantization weight_dtype is used.'')], Inr w)))"

text \<open>
  Lines 1725-1783: the three resolutions in their order, on the config that
  \<^verbatim>\<open>from_dict\<close> built. The result is the resolved config and its \<^verbatim>\<open>weight_dtype\<close>.
\<close>

definition resolve_dtypes ::
  "host \<Rightarrow> bool \<Rightarrow> bool \<Rightarrow> torch_dtype option \<Rightarrow> quantization_config
     \<Rightarrow> log \<times> (error + quantization_config \<times> string)" where
  "resolve_dtypes h use_cpu use_xpu torch_dtype qc =
     (let qc1 = qc\<lparr>compute_dtype :=
                     Some (resolve_compute_dtype h use_cpu use_xpu torch_dtype (compute_dtype qc))\<rparr>;
          (l2, s) = resolve_scale_dtype (scale_dtype qc1);
          qc2 = qc1\<lparr>scale_dtype := Some s\<rparr>;
          (l3, r) = resolve_weight_dtype (bits qc2) (weight_dtype qc2)
      in (l2 @ l3,
          (case r of Inl e \<Rightarrow> Inl e | Inr w \<Rightarrow> Inr (qc2\<lparr>weight_dtype := Some w\<rparr>, w))))"

text \<open>
  What the modelled part of \<^verbatim>\<open>load_low_bit\<close> arrives at: the early return through
  neural-compressor's \<^verbatim>\<open>load\<close> (line 1695, methods static, dynamic and qat), or the
  resolved config together with the allocator that built the skeleton.
\<close>

datatype reload = Inc_load | Skeleton quantization_config allocator

text \<open>
  \<^verbatim>\<open>load_low_bit\<close>, lines 1433-1453 and 1660-1805. The checkpoint lookup in between
  is taken to have found the weights file, which line 1661 or 1664 logs, and
  \<open>torch_dtype\<close> is the value after lines 1705-1724. A \<^verbatim>\<open>quant_method\<close> with no config
  class leaves the raw dict in place, and the attribute read of line 1695 then fails on
  it; an object that \<^verbatim>\<open>from_dict\<close> built carries the method tag of its class.
\<close>

definition load_low_bit ::
  "host \<Rightarrow> bool \<Rightarrow> bool \<Rightarrow> torch_dtype option \<Rightarrow> quantization_config
     \<Rightarrow> log \<times> (error + reload)" where
  "load_low_bit h use_cpu use_xpu torch_dtype qc =
     (case quant_method qc of
        None \<Rightarrow> ([], Inl (KeyError ''quant_method''))
      | Some m \<Rightarrow>
          (if m \<notin> set config_classes then
             ([(LInfo, ''loading weights file'')], Inl (AttributeError ''quant_method''))
           else
             (case class_from_dict h m qc of
                Inl e \<Rightarrow> ([], Inl e)
              | Inr qd \<Rightarrow>
                  (if m \<in> set [''static'', ''dynamic'', ''qat''] then
                     ([(LInfo, ''loading weights file'')], Inr Inc_load)
                   else
                     (case resolve_dtypes h use_cpu use_xpu torch_dtype qd of
                        (l, Inl e) \<Rightarrow> ((LInfo, ''loading weights file'') # l, Inl e)
                      | (l, Inr (qr, w)) \<Rightarrow>
                          (case allocation_error h (skeleton_allocator w) qr of
                             Some e \<Rightarrow> ((LInfo, ''loading weights file'') # l, Inl e)
                           | None \<Rightarrow>
                               ((LInfo, ''loading weights file'') # l,
                                Inr (Skeleton qr (skeleton_allocator w)))))))))"

text \<open>The weight-only methods: those that reach the dtype resolution.\<close>

definition weight_only_methods :: "string list" where
  "weight_only_methods = [''rtn'', ''awq'', ''teq'', ''gptq'', ''autoround'']"

section \<open>The dispatcher: \<open>from_pretrained\<close>\<close>

text \<open>
  The configuration object a caller hands to \<^verbatim>\<open>from_pretrained\<close>. The dispatch is a
  chain of \<^verbatim>\<open>isinstance\<close> tests, so the class is the tag \<open>kind\<close>; the other fields
  are the attributes the dispatcher reads. A dtype attribute holds a string or a torch
  dtype (line 531 stores \<^verbatim>\<open>torch.float32\<close> itself).
\<close>

datatype config_kind =
    BitsAndBytesConfig | MixedPrecisionConfig | SmoothQuantConfig | StaticQuantConfig
  | DynamicQuantConfig | QuantAwareTrainingConfig
  | RtnConfig | AwqConfig | TeqConfig | GPTQConfig | AutoRoundConfig

datatype dtype_value = Str string | Torch torch_dtype

record qconfig =
  kind :: config_kind
  q_bits :: "int option"
  q_weight_dtype :: "string option"
  q_compute_dtype :: "dtype_value option"
  q_dtype :: string

text \<open>
  Modelled from the spec: the config classes live in \<^verbatim>\<open>..utils\<close>, outside the source
  files. Each class carries one method tag (\<^verbatim>\<open>quant_method.value\<close>), and
  \<open>config_object k d\<close> is the object of class \<open>k\<close> that holds the entries \<open>d\<close>: what
  \<^verbatim>\<open>from_dict\<close> of the class returns once it has accepted the persisted entries (the
  host's \<open>class_from_dict\<close> says whether it does, and with which entries).
\<close>

fun method_value :: "config_kind \<Rightarrow> string" where
  "method_value RtnConfig = ''rtn''"
| "method_value AwqConfig = ''awq''"
| "method_value TeqConfig = ''teq''"
| "method_value GPTQConfig = ''gptq''"
| "method_value AutoRoundConfig = ''autoround''"
| "method_value SmoothQuantConfig = ''sq''"
| "method_value StaticQuantConfig = ''static''"
| "method_value DynamicQuantConfig = ''dynamic''"
| "method_value QuantAwareTrainingConfig = ''qat''"
| "method_value MixedPrecisionConfig = ''mp''"
| "method_value BitsAndBytesConfig = ''bitsandbytes''"

definition config_object :: "config_kind \<Rightarrow> quantization_config \<Rightarrow> qconfig" where
  "config_object k d =
     \<lparr>kind = k, q_bits = bits d, q_weight_dtype = weight_dtype d,
      q_compute_dtype = map_option Str (compute_dtype d), q_dtype = []\<rparr>"

text \<open>Line 424: \<^verbatim>\<open>ConfigInit\<close>, the classes of the neural-speed reload.\<close>

definition ConfigInit :: "(string \<times> config_kind) list" where
  "ConfigInit =
     [(''rtn'', RtnConfig), (''awq'', AwqConfig), (''teq'', TeqConfig), (''gptq'', GPTQConfig),
      (''autoround'', AutoRoundConfig)]"

text \<open>The attribute \<^verbatim>\<open>config.quantization_config\<close>: absent, \<^verbatim>\<open>None\<close>, or a dict.\<close>

datatype persisted = No_attribute | Attribute_None | Attribute_dict quantization_config

text \<open>
  A load request: the keyword arguments and the facts about the checkpoint that the
  dispatcher looks at. \<open>repo_model_type\<close> is the \<^verbatim>\<open>model_type\<close> entry of the hub's
  \<^verbatim>\<open>config.json\<close> (GGUF loading), \<open>config_model_type\<close> the attribute of the loaded
  config object. \<open>device_map\<close> is the device's name, also when a \<^verbatim>\<open>torch.device\<close> is given.
\<close>

record request =
  model_file :: "string option"
  kw_model_type :: "string option"
  repo_model_type :: "string option"
  use_embedding_runtime :: bool
  device_map :: string
  config_model_type :: "string option"
  persisted_config :: persisted
  use_llm_runtime :: "bool option"
  use_neural_speed :: "bool option"
  quantization_config :: "qconfig option"
  load_in_8bit :: bool
  load_in_4bit :: bool
  torch_dtype :: "torch_dtype option"

text \<open>
  The collaborators outside the source files, as parameters: the availability probes,
  \<^verbatim>\<open>convert_dtype_str2torch\<close> (\<open>None\<close> when its own assertion fails),
  \<^verbatim>\<open>post_init_runtime\<close>, and the message of the exception \<^verbatim>\<open>cls.load_low_bit\<close>
  raises, if it raises one.
\<close>

record runtime = host +
  accelerate_available :: bool
  bitsandbytes_available :: bool
  convert_dtype_str2torch :: "dtype_value option \<Rightarrow> torch_dtype option"
  post_init_runtime :: "qconfig \<Rightarrow> error + qconfig"
  load_low_bit_raises :: "string option"

text \<open>
  Where a request ends: the model the early-returning branches build, or the
  quantization pathway entered (the body of a pathway past its entry is not part of
  this model).
\<close>

datatype pathway =
    Gguf_model string
  | Compiled_model
  | Neural_speed_low_bit qconfig bool bool
  | Low_bit_model
  | Bitsandbytes_model
  | Mixed_precision torch_dtype
  | Neural_speed_rtn qconfig
  | Weight_only qconfig
  | Smooth_quant
  | Dynamic_quant
  | Static_quant
  | Quant_aware_training
  | Neural_speed_fp32
  | Plain_load

definition model_type_list :: "string list" where
  "model_type_list =
     [''llama'', ''gptj'', ''mpt'', ''opt'', ''gptneox'', ''dolly'', ''polyglot'', ''starcoder'',
      ''falcon'', ''bloom'', ''chatglm2'', ''chatglm'', ''baichuan'', ''mistral'', ''qwen'', ''phi'',
      ''whisper'', ''qwen2'', ''gemma'']"

definition model_type_list_for_gptq :: "string list" where
  "model_type_list_for_gptq =
     [''llama'', ''gptj'', ''mpt'', ''falcon'', ''chatglm2'', ''chatglm'', ''baichuan'', ''mistral'',
      ''qwen'', ''phi'']"

text \<open>Sequencing of steps that log and may fail: the first failure ends the call.\<close>

definition and_then ::
  "log \<times> (error + 'a) \<Rightarrow> ('a \<Rightarrow> log \<times> (error + 'b)) \<Rightarrow> log \<times> (error + 'b)" where
  "and_then m f =
     (case m of
        (l, Inl e) \<Rightarrow> (l, Inl e)
      | (l, Inr x) \<Rightarrow> (case f x of (l', r) \<Rightarrow> (l @ l', r)))"

text \<open>Lines 313-348: a GGUF file is loaded by neural speed at once.\<close>

definition load_gguf :: "request \<Rightarrow> log \<times> (error + pathway)" where
  "load_gguf rq =
     (let l0 = [(LInfo, ''Using Neural Speed to load the GGUF model...'')];
          found = (case kw_model_type rq of
                     Some t \<Rightarrow> if t \<noteq> [] then Some t else repo_model_type rq
                   | None \<Rightarrow> repo_model_type rq)
      in case found of
           None \<Rightarrow>
             (l0 @ [(LError, ''Can't get model_type from this Hugginface repo.'')], Inl SystemExit)
         | Some t \<Rightarrow>
             if t \<notin> set model_type_list then
               (l0 @ [(LInfo, ''The model_type is '' @ t),
                      (LError, ''Can't support this model_type. Please set the correct model_type'')],
                Inl SystemExit)
             else (l0 @ [(LInfo, ''The model_type is '' @ t)], Inr (Gguf_model t)))"

text \<open>Lines 386-409: is the neural-speed runtime to be used?\<close>

definition select_neural_speed :: "request \<Rightarrow> log \<times> (error + bool)" where
  "select_neural_speed rq =
     (let use_xpu = (device_map rq = ''xpu'') in
      case use_llm_runtime rq of
        Some b \<Rightarrow>
          ([(LWarning,
             ''use_llm_runtime is deprecated in version 1.3.2, please use_neural_speed instead.'')],
           Inr (b \<and> \<not> use_xpu))
      | None \<Rightarrow>
          (case use_neural_speed rq of
             Some b \<Rightarrow> ([], Inr (b \<and> \<not> use_xpu))
           | None \<Rightarrow>
               (case config_model_type rq of
                  None \<Rightarrow>
                    ([(LError, ''Can't get the model_type. Please check the correct model_type'')],
                     Inl SystemExit)
                | Some t \<Rightarrow>
                    if t \<in> set model_type_list \<and> \<not> use_xpu then
                      (if map_option kind (quantization_config rq) = Some GPTQConfig
                          \<and> t \<notin> set model_type_list_for_gptq
                       then ([], Inr False) else ([], Inr True))
                    else ([], Inr False))))"

text \<open>
  Lines 423-456: the persisted config is loaded by neural speed. A config passed by the
  caller is used as it is; otherwise one is rebuilt from the persisted dict, by the
  \<^verbatim>\<open>from_dict\<close> of the class that \<^verbatim>\<open>ConfigInit\<close> has for the method, which may raise.
\<close>

definition neural_speed_reload ::
  "runtime \<Rightarrow> request \<Rightarrow> quantization_config \<Rightarrow> log \<times> (error + pathway)" where
  "neural_speed_reload rt rq d =
     and_then
       (case quantization_config rq of
          Some qc \<Rightarrow> ([], Inr qc)
        | None \<Rightarrow>
            (case quant_method d of
               None \<Rightarrow> ([], Inl (AssertionError ''Detect this model is not a low-bit model.''))
             | Some m \<Rightarrow>
                 (case map_of ConfigInit m of
                    None \<Rightarrow>
                      ([], Inl (AssertionError ''Detect this model is not a low-bit model.''))
                  | Some k \<Rightarrow>
                      (case class_from_dict rt m d of
                         Inl e \<Rightarrow> ([], Inl e)
                       | Inr d' \<Rightarrow>
                           ([(LInfo, ''Loading Low Bits model by Neural Speed.'')],
                            post_init_runtime rt (config_object k d'))))))
       (\<lambda>qc. ([], Inr (Neural_speed_low_bit qc
                         (method_value (kind qc) \<in> set [''gptq'', ''autoround'', ''rtn''])
                         (method_value (kind qc) = ''awq''))))"

text \<open>Lines 458-478: the persisted config is loaded by \<^verbatim>\<open>load_low_bit\<close>.\<close>

definition low_bit_reload :: "runtime \<Rightarrow> log \<times> (error + pathway)" where
  "low_bit_reload rt =
     (case load_low_bit_raises rt of
        None \<Rightarrow>
          ([(LInfo, ''quantization_config: ''),
            (LInfo, ''Saved low bit model loading successfully. Other input args will be ignored.'')],
           Inr Low_bit_model)
      | Some e \<Rightarrow>
          ([(LInfo, ''quantization_config: ''), (LError, e),
            (LError, ''Saved low bit model loading failed, please check your model.'')],
           Inl SystemExit))"

text \<open>Lines 417 and 457: which of the two reloads a persisted dict gets.\<close>

definition load_persisted ::
  "runtime \<Rightarrow> request \<Rightarrow> bool \<Rightarrow> quantization_config \<Rightarrow> log \<times> (error + pathway)" where
  "load_persisted rt rq use_ns d =
     (if use_ns then
        (case quant_method d of
           None \<Rightarrow> ([], Inl (KeyError ''quant_method''))
         | Some m \<Rightarrow>
             if m \<notin> set [''dynamic'', ''static'', ''qat''] then neural_speed_reload rt rq d
             else low_bit_reload rt)
      else low_bit_reload rt)"

text \<open>
  Lines 482-561: the bitsandbytes passthrough and the \<^verbatim>\<open>load_in_4bit\<close> /
  \<^verbatim>\<open>load_in_8bit\<close> flags. The result is a model returned at once (left) or the
  config to dispatch on (right).
\<close>

definition rtn_config ::
  "int option \<Rightarrow> dtype_value \<Rightarrow> string \<Rightarrow> qconfig" where
  "rtn_config b cd wd =
     \<lparr>kind = RtnConfig, q_bits = b, q_weight_dtype = Some wd, q_compute_dtype = Some cd,
      q_dtype = []\<rparr>"

definition low_bit_flags ::
  "runtime \<Rightarrow> request \<Rightarrow> bool \<Rightarrow> log \<times> (error + pathway + qconfig option)" where
  "low_bit_flags rt rq use_ns =
     (let use_cpu = (device_map rq = ''cpu'');
          use_xpu = (device_map rq = ''xpu'');
          qc = quantization_config rq
      in
      if map_option kind qc = Some BitsAndBytesConfig then ([], Inr (Inl Bitsandbytes_model))
      else if load_in_8bit rq \<or> load_in_4bit rq then
        (if accelerate_available rt \<and> bitsandbytes_available rt \<and> \<not> use_cpu \<and> \<not> use_xpu then
           ([(LInfo, ''WeightOnlyQuant bitsandbytes done.'')], Inr (Inl Bitsandbytes_model))
         else
           (let l = [(LInfo, device_map rq @ '' device is used.'')];
                td = (case torch_dtype rq of
                        Some t \<Rightarrow> t
                      | None \<Rightarrow> if use_xpu then Float16 else Float32);
                cd = (if use_cpu \<and> \<not> cpu_bf16 rt \<and> td = BFloat16 then Torch Float32
                      else Str (convert_dtype_torch2str rt td))
            in
            if use_xpu \<and> td \<noteq> Float16 then
              (l, Inl (AssertionError
                 ''Intel GPU only support torch.float16 now, will support other dtype in future!''))
            else if load_in_4bit rq then
              (case qc of
                 None \<Rightarrow>
                   (l, Inr (Inr (Some
                      (if use_ns then rtn_config None (Str ''fp32'') ''nf4''
                       else rtn_config (Some 4) cd (if use_cpu then ''nf4'' else ''int4_fullrange'')))))
               | Some c \<Rightarrow>
                   (case q_weight_dtype c of
                      None \<Rightarrow> (l, Inl (TypeError ''argument of type NoneType is not iterable''))
                    | Some w \<Rightarrow>
                        if CHR ''4'' \<in> set w
                           \<and> convert_dtype_str2torch rt (q_compute_dtype c) = Some td
                        then (l, Inr (Inr (Some c)))
                        else (l, Inl (AssertionError
                                ''Quantization_config.weight_dtype should be 'nf4', 'int4_fullrange', 'int4_clip',''))))
            else
              (case qc of
                 None \<Rightarrow>
                   (l, Inr (Inr (Some
                      (if use_ns then
                         rtn_config None (Str (if cpu_bf16 rt then ''bf16'' else ''fp32'')) ''int8''
                       else rtn_config (Some 8) cd ''int8''))))
               | Some c \<Rightarrow>
                   if q_weight_dtype c = Some ''int8'' \<and> q_compute_dtype c = Some (Torch td)
                   then (l, Inr (Inr (Some c)))
                   else (l, Inl (AssertionError
                           ''Quantization_config.weight_dtype should be 'int8' and compute_dtype should be the torch_dtype.'')))))
      else ([], Inr (Inr qc)))"

text \<open>Line 592: the classes of the one-shot weight-only pathway.\<close>

definition weight_only_kinds :: "config_kind list" where
  "weight_only_kinds = [RtnConfig, AwqConfig, TeqConfig, GPTQConfig, AutoRoundConfig]"

text \<open>Lines 590-693: the weight-only pathway, on neural speed or on the module graph.\<close>

definition weight_only_quantization ::
  "runtime \<Rightarrow> bool \<Rightarrow> qconfig \<Rightarrow> log \<times> (error + pathway)" where
  "weight_only_quantization rt use_ns c =
     (let l = [(LInfo, ''Applying Weight Only Quantization.'')] in
      if use_ns then
        (if kind c \<noteq> RtnConfig then
           (l @ [(LError, ''Only Supports RTN Quantization in Neural Speed.'')], Inl SystemExit)
         else
           (case post_init_runtime rt c of
              Inl e \<Rightarrow>
                (l @ [(LInfo, ''Quantize model by Neural Speed with RTN Algorithm.'')], Inl e)
            | Inr c' \<Rightarrow>
                (l @ [(LInfo, ''Quantize model by Neural Speed with RTN Algorithm.'')],
                 Inr (Neural_speed_rtn c'))))
      else (l @ [(LInfo, ''WeightOnlyQuant done.'')], Inr (Weight_only c)))"

text \<open>Lines 562-1343: the dispatch on the class of the config.\<close>

definition dispatch ::
  "runtime \<Rightarrow> bool \<Rightarrow> qconfig option \<Rightarrow> log \<times> (error + pathway)" where
  "dispatch rt use_ns qc =
     (case qc of
        None \<Rightarrow>
          (if use_ns then
             ([(LInfo, ''Using Neural Speed with FP32 model dtype.'')], Inr Neural_speed_fp32)
           else ([], Inr Plain_load))
      | Some c \<Rightarrow>
          if kind c = MixedPrecisionConfig then
            ([(LInfo, ''Mixed Precision done.'')],
             Inr (Mixed_precision
                    (if q_dtype c = ''float16'' \<or> q_dtype c = ''fp16'' then Float16 else BFloat16)))
          else if kind c \<in> set weight_only_kinds then weight_only_quantization rt use_ns c
          else if kind c = SmoothQuantConfig then ([], Inr Smooth_quant)
          else if kind c = DynamicQuantConfig then ([], Inr Dynamic_quant)
          else if kind c = StaticQuantConfig then ([], Inr Static_quant)
          else if kind c = QuantAwareTrainingConfig then ([], Inr Quant_aware_training)
          else if use_ns then
            ([(LInfo, ''Using Neural Speed with FP32 model dtype.'')], Inr Neural_speed_fp32)
          else ([], Inr Plain_load))"

text \<open>\<^verbatim>\<open>from_pretrained\<close>, lines 311-1343.\<close>

definition from_pretrained :: "runtime \<Rightarrow> request \<Rightarrow> log \<times> (error + pathway)" where
  "from_pretrained rt rq =
     (if model_file rq \<noteq> None then load_gguf rq
      else if use_embedding_runtime rq then ([], Inr Compiled_model)
      else
        and_then (select_neural_speed rq)
          (\<lambda>use_ns.
             case persisted_config rq of
               Attribute_dict d \<Rightarrow> load_persisted rt rq use_ns d
             | p \<Rightarrow>
                 and_then
                   (if p = Attribute_None then
                      [(LWarning, ''Quantization_config loading failed.'')]
                    else [],
                    Inr ())
                   (\<lambda>_. and_then (low_bit_flags rt rq use_ns)
                          (\<lambda>r. case r of
                                 Inl model \<Rightarrow> ([], Inr model)
                               | Inr qc \<Rightarrow> dispatch rt use_ns qc))))"

section \<open>The calibration pipeline\<close>

subsection \<open>Tokenizing a dataset record\<close>

text \<open>
  \<^verbatim>\<open>tokenize_function\<close> (lines 795-808, and again at 1077 and 1216). \<open>examples\<close> is
  the dict of the dataset's columns and \<open>tokenizer\<close> the caller's tokenizer.
\<close>

definition tokenize_function ::
  "('t \<Rightarrow> 'e) \<Rightarrow> (string \<rightharpoonup> 't) \<Rightarrow> log \<times> (error + 'e)" where
  "tokenize_function tokenizer examples =
     (case examples ''code'' of
        Some c \<Rightarrow> ([], Inr (tokenizer c))
      | None \<Rightarrow>
          (case examples ''prompt'' of
             Some p \<Rightarrow> ([], Inr (tokenizer p))
           | None \<Rightarrow>
               (case examples ''text'' of
                  Some t \<Rightarrow> ([], Inr (tokenizer t))
                | None \<Rightarrow>
                    ([(LError,
                       ''Please check dataset prompt identifier, NeelNanda/pile-10k is default used calibration dataset.'')],
                     Inl SystemExit))))"

subsection \<open>Tensors of token ids\<close>

text \<open>
  A tokenized record is its \<^verbatim>\<open>input_ids\<close>, a one-dimensional tensor. A batch is a dict
  from key to entry: a two-dimensional tensor (a list of rows) or the placeholder for
  \<^verbatim>\<open>past_key_values\<close>.
\<close>

record tokenized =
  input_ids :: "int list"

datatype 'p entry = Tensor "int list list" | Past_key_values 'p

text \<open>Python's \<^verbatim>\<open>xs[:n]\<close>: a negative \<open>n\<close> counts from the end.\<close>

definition slice_to :: "int \<Rightarrow> 'a list \<Rightarrow> 'a list" where
  "slice_to n xs =
     (if 0 \<le> n then take (nat n) xs else take (nat (int (length xs) + n)) xs)"

text \<open>Lines 818-822: \<^verbatim>\<open>input_ids[: int(calib_len)] if len(input_ids) > int(calib_len) else input_ids\<close>.\<close>

definition clip_to :: "int \<Rightarrow> int list \<Rightarrow> int list" where
  "clip_to calib_len ids =
     (if int (length ids) > calib_len then slice_to calib_len ids else ids)"

text \<open>
  \<^verbatim>\<open>torch.nn.functional.pad(ids, (0, pad_len), value=v)\<close> on a one-dimensional tensor:
  a negative amount crops at the right, and an output of negative size is refused.
  The ids are a tensor of 64-bit integers and torch takes \<^verbatim>\<open>value\<close> as a double, so
  the element written is not the Python integer \<open>v\<close> but \<open>stored v\<close>, what the cast of
  that double to a 64-bit integer gives: \<open>v\<close> itself only where a double holds \<open>v\<close>
  exactly. The conversion is torch's own and is taken as a parameter, total on the
  integers that Python converts to a double, the pad values considered here.
\<close>

definition pad :: "(int \<Rightarrow> int) \<Rightarrow> int list \<Rightarrow> int \<Rightarrow> int \<Rightarrow> error + int list" where
  "pad stored ids pad_len v =
     (if int (length ids) + pad_len < 0 then
        Inl (RuntimeError ''negative padding resulted in a negative output size'')
      else if 0 \<le> pad_len then Inr (ids @ replicate (nat pad_len) (stored v))
      else Inr (take (nat (int (length ids) + pad_len)) ids))"

text \<open>\<^verbatim>\<open>torch.vstack\<close> of one-dimensional tensors: they must be of one length.\<close>

definition vstack :: "int list list \<Rightarrow> error + int list list" where
  "vstack rows =
     (case rows of
        [] \<Rightarrow> Inl (RuntimeError ''vstack expects a non-empty TensorList'')
      | r # rs \<Rightarrow>
          if list_all (\<lambda>x. length x = length r) rs then Inr rows
          else Inl (RuntimeError ''Sizes of tensors must match''))"

subsection \<open>Collating a batch\<close>

text \<open>Lines 816-827: the ids of one record, truncated or padded.\<close>

definition prepare_input_ids ::
  "(int \<Rightarrow> int) \<Rightarrow> bool \<Rightarrow> int \<Rightarrow> int \<Rightarrow> int list \<Rightarrow> error + int list" where
  "prepare_input_ids stored calib_padding calib_len calib_pad_val ids =
     (if \<not> calib_padding then Inr (clip_to calib_len ids)
      else pad stored ids (calib_len - int (length ids)) calib_pad_val)"

text \<open>The loop over the batch: the first record that fails ends it.\<close>

fun prepare_rows ::
  "(int \<Rightarrow> int) \<Rightarrow> bool \<Rightarrow> int \<Rightarrow> int \<Rightarrow> tokenized list \<Rightarrow> error + int list list" where
  "prepare_rows stored calib_padding calib_len calib_pad_val [] = Inr []"
| "prepare_rows stored calib_padding calib_len calib_pad_val (t # ts) =
     (case prepare_input_ids stored calib_padding calib_len calib_pad_val (input_ids t) of
        Inl e \<Rightarrow> Inl e
      | Inr ids \<Rightarrow>
          (case prepare_rows stored calib_padding calib_len calib_pad_val ts of
             Inl e \<Rightarrow> Inl e
           | Inr rest \<Rightarrow> Inr (ids # rest)))"

text \<open>
  \<^verbatim>\<open>collate_batch\<close> of the SmoothQuant pathway (lines 810-857). \<open>requiring\<close> is
  \<^verbatim>\<open>MODEL_TYPES_REQUIRING_POSITION_IDS\<close>, imported from \<^verbatim>\<open>..utils.utility\<close> and taken
  as a parameter. The result is the batch dict and \<^verbatim>\<open>last_ind\<close>. The data loader
  of this pathway hands over one record at a time (\<^verbatim>\<open>batch_size=1\<close>, line 897).
\<close>

definition collate_batch ::
  "(int \<Rightarrow> int) \<Rightarrow> bool \<Rightarrow> int \<Rightarrow> int \<Rightarrow> string \<Rightarrow> string set \<Rightarrow> 'p \<Rightarrow> tokenized list
     \<Rightarrow> error + (string \<rightharpoonup> 'p entry) \<times> int list" where
  "collate_batch stored calib_padding calib_len calib_pad_val model_type requiring past batch =
     (case prepare_rows stored calib_padding calib_len calib_pad_val batch of
        Inl e \<Rightarrow> Inl e
      | Inr rows \<Rightarrow>
          (let last_ind = map (\<lambda>r. int (length r) - 1) rows;
               masks = map (\<lambda>r. if model_type \<in> set [''bloom'', ''qwen'']
                                then 0 # replicate (length r) 1
                                else replicate (length r) 1) rows;
               positions = map (\<lambda>r. map int [0..<length r]) rows
           in
           (case vstack rows of
              Inl e \<Rightarrow> Inl e
            | Inr ids \<Rightarrow>
                (case vstack masks of
                   Inl e \<Rightarrow> Inl e
                 | Inr att \<Rightarrow>
                     if model_type \<in> requiring then
                       (case vstack positions of
                          Inl e \<Rightarrow> Inl e
                        | Inr pos \<Rightarrow>
                            Inr ([''input_ids'' \<mapsto> Tensor ids,
                                  ''attention_mask'' \<mapsto> Tensor att,
                                  ''position_ids'' \<mapsto> Tensor pos,
                                  ''past_key_values'' \<mapsto> Past_key_values past],
                                 last_ind))
                     else
                       Inr ([''input_ids'' \<mapsto> Tensor ids,
                             ''attention_mask'' \<mapsto> Tensor att,
                             ''past_key_values'' \<mapsto> Past_key_values past],
                            last_ind)))))"

text \<open>
  \<^verbatim>\<open>collate_batch_for_chatglm\<close> (lines 859-890). \<open>chatglm_6b\<close> is the outcome of the
  \<^verbatim>\<open>re.search\<close> on the model's \<^verbatim>\<open>auto_map\<close>, and \<open>position_ids_of\<close> the
  \<^verbatim>\<open>position_ids\<close> that the model's \<^verbatim>\<open>prepare_inputs_for_generation\<close> returns. The
  loop overwrites its variables, so the batch holds the last record; on an empty batch
  the variables are never bound.
\<close>

definition collate_batch_for_chatglm ::
  "int \<Rightarrow> bool \<Rightarrow> (int list list \<Rightarrow> int list list) \<Rightarrow> 'p \<Rightarrow> tokenized list
     \<Rightarrow> error + (string \<rightharpoonup> 'p entry) \<times> int list" where
  "collate_batch_for_chatglm calib_len chatglm_6b position_ids_of past batch =
     (if batch = [] then Inl (UnboundLocalError ''input_ids'')
      else
        (let rows = map (\<lambda>t. if chatglm_6b
                              then clip_to calib_len (input_ids t) @ [130001, 130004]
                              else clip_to calib_len (input_ids t)) batch;
             ids = [last rows]
         in Inr ([''input_ids'' \<mapsto> Tensor ids,
                  ''attention_mask'' \<mapsto> Tensor [replicate (length (last rows)) 1],
                  ''position_ids'' \<mapsto> Tensor (position_ids_of ids),
                  ''past_key_values'' \<mapsto> Past_key_values past],
                 map (\<lambda>r. int (length r) - 1) rows)))"

text \<open>Lines 894-907: the collator that the SmoothQuant data loader is given.\<close>

definition smooth_quant_collate ::
  "(int \<Rightarrow> int) \<Rightarrow> bool \<Rightarrow> int \<Rightarrow> int \<Rightarrow> string \<Rightarrow> string set \<Rightarrow> bool
     \<Rightarrow> (int list list \<Rightarrow> int list list)
     \<Rightarrow> 'p \<Rightarrow> tokenized list \<Rightarrow> error + (string \<rightharpoonup> 'p entry) \<times> int list" where
  "smooth_quant_collate stored calib_padding calib_len calib_pad_val model_type requiring
       chatglm_6b position_ids_of past batch =
     (if model_type = ''chatglm'' then
        collate_batch_for_chatglm calib_len chatglm_6b position_ids_of past batch
      else collate_batch stored calib_padding calib_len calib_pad_val model_type requiring
             past batch)"

text \<open>
  \<^verbatim>\<open>collate_batch\<close> of the static pathway (lines 1092-1117); the one of the
  quantization-aware-training pathway (lines 1231-1256) is the same code over
  \<^verbatim>\<open>train_padding\<close>, \<^verbatim>\<open>train_len\<close> and \<^verbatim>\<open>train_pad_val\<close>. The static loader hands
  over one record at a time (line 1124), the training loader
  \<^verbatim>\<open>train_batch_size\<close> of them (line 1263).
\<close>

definition collate_batch_static ::
  "(int \<Rightarrow> int) \<Rightarrow> bool \<Rightarrow> int \<Rightarrow> int \<Rightarrow> tokenized list
     \<Rightarrow> error + (string \<rightharpoonup> 'p entry) \<times> int list" where
  "collate_batch_static stored calib_padding calib_len calib_pad_val batch =
     (case prepare_rows stored calib_padding calib_len calib_pad_val batch of
        Inl e \<Rightarrow> Inl e
      | Inr rows \<Rightarrow>
          (case vstack rows of
             Inl e \<Rightarrow> Inl e
           | Inr ids \<Rightarrow>
               Inr ([''input_ids'' \<mapsto> Tensor ids], map (\<lambda>r. int (length r) - 1) rows)))"

section \<open>The module graph\<close>

text \<open>
  What \<^verbatim>\<open>recover_qparms\<close> of a \<^verbatim>\<open>QuantizedLinearQBits\<close> module returns, in the order
  of the tuple (lines 113-126). The class lives in \<^verbatim>\<open>..llm.quantization.nn.modules\<close>;
  a module of it is represented by this tuple and its bias. Tensors are of an abstract
  type \<open>'t\<close>.
\<close>

record 't qparms =
  qp_groupsize :: int
  qp_in_features :: nat
  qp_out_features :: nat
  qp_desc_act :: bool
  qp_g_idx :: "'t option"
  qp_weight_dtype :: string
  qp_bits :: int
  qp_scales_dtype :: string
  qp_scales :: 't
  qp_zp :: bool
  qp_zeros :: "'t option"
  qp_int_weight :: 't

text \<open>
  neural-compressor's \<^verbatim>\<open>WeightOnlyLinear\<close>: the arguments of its constructor as the
  source passes them, the \<^verbatim>\<open>g_idx\<close> attribute, and its buffers.
\<close>

record wol_args =
  a_in_features :: nat
  a_out_features :: nat
  a_bits :: "int option"
  a_groupsize :: int
  a_dtype :: string
  a_zp :: bool
  a_bias :: bool
  a_scale_dtype :: "string option"
  a_g_idx :: bool
  a_use_optimum_format :: bool

record 't weight_only_linear =
  args :: wol_args
  g_idx :: "'t option"
  buffers :: "(string \<times> 't) list"

text \<open>
  The library code the functions of this section call, as parameters: the constructor
  of \<^verbatim>\<open>WeightOnlyLinear\<close>, its \<^verbatim>\<open>pack\<close> method (weight, scales, zeros, bias, g_idx), and
  the transposition \<^verbatim>\<open>t_().contiguous()\<close> of a tensor.
\<close>

record 't library =
  construct :: "wol_args \<Rightarrow> 't weight_only_linear"
  pack :: "'t weight_only_linear \<Rightarrow> 't \<Rightarrow> 't \<Rightarrow> 't option \<Rightarrow> 't option \<Rightarrow> 't option
             \<Rightarrow> 't weight_only_linear"
  transposed :: "'t \<Rightarrow> 't"

text \<open>
  A module: a dense \<^verbatim>\<open>torch.nn.Linear\<close> (in_features, out_features, has a bias), one of
  the three packed linear classes, or any other module, one that is no
  \<^verbatim>\<open>torch.nn.Linear\<close>, with its class name and its named children. The linear classes
  have no children. For the Intel GPU class the fields are \<^verbatim>\<open>weight_transposed\<close>,
  \<^verbatim>\<open>qweight\<close> and \<^verbatim>\<open>scales\<close>.
\<close>

datatype 't module =
    Linear nat nat bool
  | QuantizedLinearQBits "'t qparms" "'t option"
  | WeightOnlyLinear "'t weight_only_linear"
  | WeightOnlyQuantizedLinear bool 't 't
  | Container string "(string \<times> 't module) list"

text \<open>
  A submodule is addressed by the names on the way to it; its qualified name joins them
  with dots, as \<^verbatim>\<open>named_modules\<close> does. The root has the empty path and the name \<^verbatim>\<open>""\<close>.
\<close>

fun qualified_name :: "string list \<Rightarrow> string" where
  "qualified_name [] = []"
| "qualified_name [n] = n"
| "qualified_name (n # ns) = n @ ''.'' @ qualified_name ns"

fun get_module :: "'t module \<Rightarrow> string list \<Rightarrow> 't module option"
  and get_child :: "(string \<times> 't module) list \<Rightarrow> string \<Rightarrow> string list \<Rightarrow> 't module option" where
  "get_module m [] = Some m"
| "get_module (Container k cs) (n # ns) = get_child cs n ns"
| "get_module _ (n # ns) = None"
| "get_child [] n ns = None"
| "get_child ((n', c) # cs) n ns = (if n' = n then get_module c ns else get_child cs n ns)"

text \<open>\<^verbatim>\<open>model.named_modules()\<close>: every module with its path, the root first.\<close>

fun named_modules :: "string list \<Rightarrow> 't module \<Rightarrow> (string list \<times> 't module) list"
  and named_children :: "string list \<Rightarrow> (string \<times> 't module) list \<Rightarrow> (string list \<times> 't module) list"
  where
  "named_modules pre (Container k cs) = (pre, Container k cs) # named_children pre cs"
| "named_modules pre m = [(pre, m)]"
| "named_children pre [] = []"
| "named_children pre ((n, c) # cs) = named_modules (pre @ [n]) c @ named_children pre cs"

text \<open>
  neural-compressor's \<^verbatim>\<open>set_module(model, key, new_module)\<close>: walk down the names of the
  key and \<^verbatim>\<open>setattr\<close> the last one, which replaces the child of that name or adds one.
\<close>

fun set_module :: "'t module \<Rightarrow> string list \<Rightarrow> 't module \<Rightarrow> 't module"
  and set_child ::
    "(string \<times> 't module) list \<Rightarrow> string \<Rightarrow> string list \<Rightarrow> 't module \<Rightarrow> (string \<times> 't module) list"
  where
  "set_module (Container k cs) (n # ns) new = Container k (set_child cs n ns new)"
| "set_module m _ new = m"
| "set_child [] n ns new = (if ns = [] then [(n, new)] else [])"
| "set_child ((n', c) # cs) n ns new =
     (if n' = n then (if ns = [] then (n', new) # cs else (n', set_module c ns new) # cs)
      else (n', c) # set_child cs n ns new)"

text \<open>Python's \<^verbatim>\<open>sub in s\<close> on strings.\<close>

fun contains :: "string \<Rightarrow> string \<Rightarrow> bool" where
  "contains sub [] = (sub = [])"
| "contains sub (c # cs) = (take (length sub) (c # cs) = sub \<or> contains sub cs)"

text \<open>Line 160: the names \<^verbatim>\<open>build_woq_model\<close> passes over.\<close>

definition head_name :: "string \<Rightarrow> bool" where
  "head_name n \<longleftrightarrow> contains ''lm_head'' n \<or> contains ''output_layer'' n \<or> contains ''embed_out'' n"

text \<open>
  Line 162: \<^verbatim>\<open>isinstance(m, torch.nn.Linear)\<close> holds for the dense layer and for
  \<^verbatim>\<open>QuantizedLinearQBits\<close>, which is a subclass of it, and not for the two classes that
  derive from \<^verbatim>\<open>torch.nn.Module\<close> alone. The result is \<^verbatim>\<open>in_features\<close>,
  \<^verbatim>\<open>out_features\<close> and whether \<^verbatim>\<open>bias\<close> is not \<^verbatim>\<open>None\<close>.
\<close>

fun linear_features :: "'t module \<Rightarrow> (nat \<times> nat \<times> bool) option" where
  "linear_features (Linear i out b) = Some (i, out, b)"
| "linear_features (QuantizedLinearQBits q bias) =
     Some (qp_in_features q, qp_out_features q, bias \<noteq> None)"
| "linear_features m = None"

text \<open>Lines 163-175: the empty-weight module that takes the place of a linear layer.\<close>

definition woq_module :: "'t library \<Rightarrow> quantization_config \<Rightarrow> nat \<Rightarrow> nat \<Rightarrow> bool \<Rightarrow> 't module" where
  "woq_module lib qc i out b =
     WeightOnlyLinear (construct lib
       \<lparr>a_in_features = i, a_out_features = out, a_bits = bits qc, a_groupsize = group_size qc,
        a_dtype = ''int'',
        a_zp = (case zero_point qc of
                  Some z \<Rightarrow> z
                | None \<Rightarrow> \<not> (case sym qc of Some y \<Rightarrow> y | None \<Rightarrow> False)),
        a_bias = b, a_scale_dtype = None, a_g_idx = True, a_use_optimum_format = True\<rparr>)"

text \<open>
  \<^verbatim>\<open>build_woq_model\<close> (lines 156-177). The loop runs over \<^verbatim>\<open>named_modules\<close> of the model
  it changes; a replaced module and its replacement have no children, so the modules
  visited are those of the model as it was.
\<close>

definition woq_step ::
  "'t library \<Rightarrow> quantization_config \<Rightarrow> string list \<times> 't module \<Rightarrow> 't module \<Rightarrow> 't module" where
  "woq_step lib qc nm model =
     (if head_name (qualified_name (fst nm)) then model
      else (case linear_features (snd nm) of
              Some (i, out, b) \<Rightarrow> set_module model (fst nm) (woq_module lib qc i out b)
            | None \<Rightarrow> model))"

definition build_woq_model :: "'t library \<Rightarrow> 't module \<Rightarrow> quantization_config \<Rightarrow> 't module" where
  "build_woq_model lib model qc = fold (woq_step lib qc) (named_modules [] model) model"

text \<open>
  Lines 112-147: a \<^verbatim>\<open>QuantizedLinearQBits\<close> module rewritten as a \<^verbatim>\<open>WeightOnlyLinear\<close>:
  built with \<^verbatim>\<open>g_idx=desc_act\<close>, packed, and its \<^verbatim>\<open>g_idx\<close> set again when the recovered
  one is not \<^verbatim>\<open>None\<close>.
\<close>

definition recover_linear :: "'t library \<Rightarrow> 't qparms \<Rightarrow> 't option \<Rightarrow> 't weight_only_linear" where
  "recover_linear lib q bias =
     (let new = construct lib
            \<lparr>a_in_features = qp_in_features q, a_out_features = qp_out_features q,
             a_bits = Some (qp_bits q), a_groupsize = qp_groupsize q, a_dtype = ''int'',
             a_zp = qp_zp q, a_bias = (bias \<noteq> None), a_scale_dtype = Some (qp_scales_dtype q),
             a_g_idx = qp_desc_act q, a_use_optimum_format = True\<rparr>;
          packed = pack lib new (qp_int_weight q) (qp_scales q) (qp_zeros q) bias (qp_g_idx q)
      in case qp_g_idx q of
           None \<Rightarrow> packed
         | Some g \<Rightarrow> packed\<lparr>g_idx := Some g\<rparr>)"

text \<open>
  \<^verbatim>\<open>recover_export_model\<close> (lines 100-153): every child is looked at, rewritten when it
  is a \<^verbatim>\<open>QuantizedLinearQBits\<close>, and descended into when it has children.
\<close>

fun recover_export_model :: "'t library \<Rightarrow> 't module \<Rightarrow> 't module"
  and recover_children :: "'t library \<Rightarrow> (string \<times> 't module) list \<Rightarrow> (string \<times> 't module) list"
  where
  "recover_export_model lib (Container k cs) = Container k (recover_children lib cs)"
| "recover_export_model lib m = m"
| "recover_children lib [] = []"
| "recover_children lib ((n, QuantizedLinearQBits q bias) # cs) =
     (n, WeightOnlyLinear (recover_linear lib q bias)) # recover_children lib cs"
| "recover_children lib ((n, c) # cs) = (n, recover_export_model lib c) # recover_children lib cs"

text \<open>
  torch keeps the children of a module in a dict and refuses a child name that is empty
  or holds a dot: the names of the children of one module differ, and a qualified name
  splits at its dots into the path.
\<close>

fun well_formed :: "'t module \<Rightarrow> bool"
  and well_formed_children :: "(string \<times> 't module) list \<Rightarrow> bool" where
  "well_formed (Container k cs) \<longleftrightarrow> distinct (map fst cs) \<and> well_formed_children cs"
| "well_formed m \<longleftrightarrow> True"
| "well_formed_children [] \<longleftrightarrow> True"
| "well_formed_children ((n, c) # cs) \<longleftrightarrow>
     n \<noteq> [] \<and> CHR ''.'' \<notin> set n \<and> well_formed c \<and> well_formed_children cs"

section \<open>Saving a low-bit model\<close>

text \<open>
  The model as \<^verbatim>\<open>save_low_bit\<close> sees it: its \<^verbatim>\<open>quantization_config\<close> attribute (\<open>None\<close>
  when the attribute is missing), whether it is a \<^verbatim>\<open>PyTorchFXModel\<close>, its device, its
  modules, whether \<^verbatim>\<open>save_pretrained\<close> is bound on the instance, and whether its
  parameters have been made contiguous.
\<close>

record 't low_bit_model =
  lb_quantization_config :: "quantization_config option"
  pytorch_fx_model :: bool
  device :: string
  modules :: "'t module"
  save_pretrained_bound :: bool
  contiguous :: bool

text \<open>The file system: the paths that are regular files and those that are directories.\<close>

record file_system =
  files :: "string set"
  directories :: "string set"

definition path_join :: "string \<Rightarrow> string \<Rightarrow> string" where
  "path_join d f = d @ ''/'' @ f"

text \<open>
  Lines 182-188: on the Intel GPU, every transposed \<^verbatim>\<open>WeightOnlyQuantizedLinear\<close> gets
  its weight and scales transposed back.
\<close>

fun reorder :: "'t library \<Rightarrow> 't module \<Rightarrow> 't module"
  and reorder_children :: "'t library \<Rightarrow> (string \<times> 't module) list \<Rightarrow> (string \<times> 't module) list"
  where
  "reorder lib (WeightOnlyQuantizedLinear tr qweight scales) =
     (if tr then WeightOnlyQuantizedLinear False (transposed lib qweight) (transposed lib scales)
      else WeightOnlyQuantizedLinear tr qweight scales)"
| "reorder lib (Container k cs) = Container k (reorder_children lib cs)"
| "reorder lib m = m"
| "reorder_children lib [] = []"
| "reorder_children lib ((n, c) # cs) = (n, reorder lib c) # reorder_children lib cs"

text \<open>\<^verbatim>\<open>convert_model_to_public\<close> (lines 180-196).\<close>

definition public_excluded :: "string list" where
  "public_excluded = [''fp8_e5m2'', ''fp8_e4m3'', ''nf4'', ''fp4'', ''int4_fullrange'']"

definition convert_model_to_public ::
  "'t library \<Rightarrow> quantization_config \<Rightarrow> 't low_bit_model \<Rightarrow> 't low_bit_model" where
  "convert_model_to_public lib qc model =
     (if device model = ''xpu'' then model\<lparr>modules := reorder lib (modules model)\<rparr>
      else if weight_dtype qc \<notin> Some ` set public_excluded then
        model\<lparr>modules := recover_export_model lib (modules model)\<rparr>
      else model)"

text \<open>
  \<^verbatim>\<open>save_low_bit\<close> (lines 205-270). The result is the exception raised, if any, the
  model and the file system afterwards, and the log. The files are those the spec names
  for a saved directory; \<^verbatim>\<open>quantize_config.json\<close> stands for what the config's own
  \<^verbatim>\<open>save_pretrained\<close> writes. With \<^verbatim>\<open>push_to_hub\<close> the function reads the local
  \<^verbatim>\<open>token\<close> before binding it, or calls \<^verbatim>\<open>logger.warning.warn\<close>.
\<close>

definition save_low_bit ::
  "'t library \<Rightarrow> 't low_bit_model \<Rightarrow> string \<Rightarrow> bool \<Rightarrow> string option \<Rightarrow> file_system
     \<Rightarrow> error option \<times> 't low_bit_model \<times> file_system \<times> log" where
  "save_low_bit lib self save_directory push_to_hub use_auth_token fs =
     (case lb_quantization_config self of
        None \<Rightarrow> (Some (AssertionError ''Detected this model is not a low-bit model.''), self, fs, [])
      | Some qc \<Rightarrow>
          if save_directory \<in> files fs then
            (None, self, fs,
             [(LError, ''Provided path ('' @ save_directory @ '') should be a directory, not a file'')])
          else if pytorch_fx_model self then
            (None, self,
             fs\<lparr>files := files fs \<union>
                    {path_join save_directory ''quantize_config.json'',
                     path_join save_directory ''config.json'',
                     path_join save_directory ''pytorch_model.bin''},
                directories := insert save_directory (directories fs)\<rparr>,
             [])
          else
            (let converted = convert_model_to_public lib qc self;
                 fs1 = fs\<lparr>directories := insert save_directory (directories fs)\<rparr>
             in
             if \<not> save_pretrained_bound converted then
               (Some (AttributeError ''save_pretrained''), converted, fs1, [])
             else
               (let saved = converted\<lparr>contiguous := True\<rparr>;
                    fs2 = fs1\<lparr>files := files fs1 \<union>
                            {path_join save_directory ''config.json'',
                             path_join save_directory ''pytorch_model.bin'',
                             path_join save_directory ''all_checkpoint_keys.json''}\<rparr>
                in
                if push_to_hub then
                  (case use_auth_token of
                     None \<Rightarrow> (Some (UnboundLocalError ''token''), saved, fs2, [])
                   | Some t \<Rightarrow> (Some (AttributeError ''warn''), saved, fs2, []))
                else
                  (None, saved,
                   fs2\<lparr>files := insert (path_join save_directory ''quantize_config.json'')
                                  (files fs2)\<rparr>,
                   []))))"

section \<open>What a calibration batch is asked to hold\<close>

text \<open>
  The ids the spec asks for from a record: its first \<^verbatim>\<open>calib_len\<close> tokens, and with
  padding enabled those followed by the element \<open>x\<close> up to \<^verbatim>\<open>calib_len\<close> tokens.
\<close>

definition calibrated :: "bool \<Rightarrow> int \<Rightarrow> int \<Rightarrow> int list \<Rightarrow> int list" where
  "calibrated calib_padding calib_len x ids =
     (if calib_padding then
        take (nat calib_len) ids @ replicate (nat calib_len - length ids) x
      else take (nat calib_len) ids)"

text \<open>The rows asked for from a batch of records, one for each record.\<close>

definition calibrated_rows :: "bool \<Rightarrow> int \<Rightarrow> int \<Rightarrow> tokenized list \<Rightarrow> int list list" where
  "calibrated_rows calib_padding calib_len x batch =
     map (\<lambda>t. calibrated calib_padding calib_len x (input_ids t)) batch"

text \<open>Rows that can be stacked: at least one, and all of one length.\<close>

definition stackable :: "int list list \<Rightarrow> bool" where
  "stackable rows \<longleftrightarrow> rows \<noteq> [] \<and> list_all (\<lambda>r. length r = length (hd rows)) rows"

text \<open>The entry of a collated batch under a key; \<open>None\<close> when the key is absent.\<close>

definition batch_entry ::
  "error + (string \<rightharpoonup> 'p entry) \<times> int list \<Rightarrow> string \<Rightarrow> 'p entry option" where
  "batch_entry r k = (case r of Inl e \<Rightarrow> None | Inr (b, li) \<Rightarrow> b k)"

section \<open>Concrete collaborators and inputs\<close>

text \<open>
  A conversion of the pad value that keeps it: what torch does to the small integers
  used below, which a double holds exactly.
\<close>

definition example_stored :: "int \<Rightarrow> int" where
  "example_stored v = v"

text \<open>
  A host and a persisted config to run the definitions on. The host has no native bf16
  and names the torch dtypes in the usual way; its GPTQ class refuses \<^verbatim>\<open>bits\<close> other
  than 4 and 8 and its other classes take the entries as they are; its
  \<^verbatim>\<open>build_woq_model\<close> fails on a config without \<^verbatim>\<open>bits\<close>. The config is an RTN one
  with the given \<^verbatim>\<open>bits\<close>, \<^verbatim>\<open>weight_dtype\<close> and \<^verbatim>\<open>scale_dtype\<close>.
\<close>

fun dtype_name :: "torch_dtype \<Rightarrow> string" where
  "dtype_name Float32 = ''fp32''"
| "dtype_name Float16 = ''fp16''"
| "dtype_name BFloat16 = ''bf16''"
| "dtype_name Int8 = ''int8''"

definition example_from_dict :: "string \<Rightarrow> quantization_config \<Rightarrow> error + quantization_config" where
  "example_from_dict m d =
     (if m = ''gptq'' \<and> bits d \<noteq> Some 4 \<and> bits d \<noteq> Some 8
      then Inl (ValueError ''Only support quantization to [4, 8] bits.'')
      else Inr d)"

definition example_allocation :: "allocator \<Rightarrow> quantization_config \<Rightarrow> error option" where
  "example_allocation a d =
     (if a = Build_woq_model \<and> bits d = None then Some (TypeError ''bits'') else None)"

definition example_host :: host where
  "example_host =
     \<lparr>cpu_bf16 = False, convert_dtype_torch2str = dtype_name,
      class_from_dict = example_from_dict, allocation_error = example_allocation\<rparr>"

definition example_config :: "int option \<Rightarrow> string option \<Rightarrow> string option \<Rightarrow> quantization_config" where
  "example_config b wd sd =
     \<lparr>quant_method = Some ''rtn'', bits = b, weight_dtype = wd, scale_dtype = sd,
      compute_dtype = Some ''fp32'', group_size = 128, zero_point = None, sym = Some True\<rparr>"

text \<open>
  A library and a model to run the definitions on. The constructor registers a zero
  \<^verbatim>\<open>g_idx\<close> buffer when asked for one, and \<^verbatim>\<open>pack\<close> stores weight and scales and
  does nothing with the \<^verbatim>\<open>g_idx\<close> it is given. The model has a block with a dense and a
  packed layer, and a dense \<^verbatim>\<open>lm_head\<close>.
\<close>

definition example_construct :: "wol_args \<Rightarrow> int list weight_only_linear" where
  "example_construct a =
     \<lparr>args = a, g_idx = (if a_g_idx a then Some (replicate (a_in_features a) 0) else None),
      buffers = []\<rparr>"

definition example_pack ::
  "int list weight_only_linear \<Rightarrow> int list \<Rightarrow> int list \<Rightarrow> int list option \<Rightarrow> int list option
     \<Rightarrow> int list option \<Rightarrow> int list weight_only_linear" where
  "example_pack w int_weight scales zeros bias gi =
     w\<lparr>buffers := [(''qweight'', int_weight), (''scales'', scales)]\<rparr>"

definition example_library :: "int list library" where
  "example_library = \<lparr>construct = example_construct, pack = example_pack, transposed = rev\<rparr>"

definition example_qparms :: "int list qparms" where
  "example_qparms =
     \<lparr>qp_groupsize = 2, qp_in_features = 4, qp_out_features = 2, qp_desc_act = True,
      qp_g_idx = Some [1, 0, 3, 2], qp_weight_dtype = ''int4_clip'', qp_bits = 4,
      qp_scales_dtype = ''fp32'', qp_scales = [1, 1, 1, 1], qp_zp = False, qp_zeros = None,
      qp_int_weight = [3, -2, 7, 0, 1, 5, -8, 4]\<rparr>"

definition example_model :: "int list module" where
  "example_model =
     Container ''Model''
       [(''layer'', Container ''Block''
           [(''mlp'', Linear 4 2 False),
            (''qmlp'', QuantizedLinearQBits example_qparms None)]),
        (''lm_head'', Linear 4 8 False)]"

text \<open>
  A runtime without bitsandbytes whose \<^verbatim>\<open>post_init_runtime\<close> and \<^verbatim>\<open>load_low_bit\<close> succeed,
  a GPTQ config, a request for a llama checkpoint on the CPU that passes this config and
  \<^verbatim>\<open>use_neural_speed=True\<close>, a persisted GPTQ config, a low-bit model and a file system.
\<close>

fun dtype_of_name :: "dtype_value option \<Rightarrow> torch_dtype option" where
  "dtype_of_name (Some (Str s)) =
     (if s = ''fp32'' then Some Float32 else if s = ''fp16'' then Some Float16
      else if s = ''bf16'' then Some BFloat16 else if s = ''int8'' then Some Int8 else None)"
| "dtype_of_name _ = None"

definition example_runtime :: runtime where
  "example_runtime =
     \<lparr>cpu_bf16 = False, convert_dtype_torch2str = dtype_name,
      class_from_dict = example_from_dict, allocation_error = example_allocation,
      accelerate_available = False,
      bitsandbytes_available = False, convert_dtype_str2torch = dtype_of_name,
      post_init_runtime = Inr, load_low_bit_raises = None\<rparr>"

definition gptq_config :: qconfig where
  "gptq_config =
     \<lparr>kind = GPTQConfig, q_bits = Some 4, q_weight_dtype = Some ''int4_clip'',
      q_compute_dtype = Some (Str ''fp32''), q_dtype = []\<rparr>"

definition example_request :: "persisted \<Rightarrow> request" where
  "example_request p =
     \<lparr>model_file = None, kw_model_type = None, repo_model_type = None,
      use_embedding_runtime = False, device_map = ''cpu'', config_model_type = Some ''llama'',
      persisted_config = p, use_llm_runtime = None, use_neural_speed = Some True,
      quantization_config = Some gptq_config, load_in_8bit = False, load_in_4bit = False,
      torch_dtype = None\<rparr>"

definition gptq_checkpoint :: quantization_config where
  "gptq_checkpoint =
     \<lparr>quant_method = Some ''gptq'', bits = Some 4, weight_dtype = Some ''int4_clip'',
      scale_dtype = Some ''fp32'', compute_dtype = Some ''fp32'', group_size = 128,
      zero_point = None, sym = Some True\<rparr>"

definition example_low_bit_model :: "int list low_bit_model" where
  "example_low_bit_model =
     \<lparr>lb_quantization_config = Some (example_config (Some 4) (Some ''int4_clip'') (Some ''fp32'')),
      pytorch_fx_model = False, device = ''cpu'', modules = example_model,
      save_pretrained_bound = True, contiguous = False\<rparr>"

definition example_files :: file_system where
  "example_files = \<lparr>files = {''out/model.bin''}, directories = {''out''}\<rparr>"

section \<open>Properties of the reload\<close>

lemma example_config_simps [simp]:
  "quant_method (example_config b wd sd) = Some ''rtn''"
  "bits (example_config b wd sd) = b"
  "weight_dtype (example_config b wd sd) = wd"
  "scale_dtype (example_config b wd sd) = sd"
  by (simp_all add: example_config_def)

lemma rtn_weight_only: "''rtn'' \<in> set weight_only_methods"
  by (simp add: weight_only_methods_def)

lemma example_host_rtn:
  "class_from_dict example_host ''rtn'' d = Inr d"
  "bits d \<noteq> None \<Longrightarrow> allocation_error example_host a d = None"
  "allocation_error example_host Replace_linear d = None"
  by (simp_all add: example_host_def example_from_dict_def example_allocation_def)

lemma resolve_dtypes_eq:
  "resolve_dtypes h uc ux td qd =
     (fst (resolve_scale_dtype (scale_dtype qd))
        @ fst (resolve_weight_dtype (bits qd) (weight_dtype qd)),
      (case snd (resolve_weight_dtype (bits qd) (weight_dtype qd)) of
         Inl e \<Rightarrow> Inl e
       | Inr w \<Rightarrow>
           Inr (qd\<lparr>compute_dtype := Some (resolve_compute_dtype h uc ux td (compute_dtype qd)),
                   scale_dtype := Some (snd (resolve_scale_dtype (scale_dtype qd))),
                   weight_dtype := Some w\<rparr>, w)))"
  by (auto simp: resolve_dtypes_def Let_def split: prod.splits sum.splits)

lemma load_low_bit_weight_only:
  assumes "quant_method qc = Some m" and "m \<in> set weight_only_methods"
    and "class_from_dict h m qc = Inr qd"
  shows "load_low_bit h uc ux td qc =
     ((LInfo, ''loading weights file'') # fst (resolve_dtypes h uc ux td qd),
      (case snd (resolve_dtypes h uc ux td qd) of
         Inl e \<Rightarrow> Inl e
       | Inr (qr, w) \<Rightarrow>
           (case allocation_error h (skeleton_allocator w) qr of
              Some e \<Rightarrow> Inl e
            | None \<Rightarrow> Inr (Skeleton qr (skeleton_allocator w)))))"
proof -
  from assms(2) have c: "m \<in> set config_classes" and i: "m \<notin> set [''static'', ''dynamic'', ''qat'']"
    by (auto simp: config_classes_def weight_only_methods_def)
  show ?thesis
    using c i
    by (cases "resolve_dtypes h uc ux td qd")
       (auto simp: load_low_bit_def assms(1,3) split: sum.splits prod.splits option.splits)
qed

lemma load_low_bit_Skeleton_method:
  assumes "snd (load_low_bit h uc ux td qc) = Inr (Skeleton qc' a)"
  shows "\<exists>m qd. quant_method qc = Some m \<and> m \<in> set weight_only_methods
           \<and> class_from_dict h m qc = Inr qd"
proof -
  obtain m where m: "quant_method qc = Some m"
    using assms by (cases "quant_method qc") (simp_all add: load_low_bit_def)
  have c: "m \<in> set config_classes"
  proof (rule ccontr)
    assume "m \<notin> set config_classes"
    with assms m show False by (simp add: load_low_bit_def)
  qed
  obtain qd where d: "class_from_dict h m qc = Inr qd"
    using assms m c by (cases "class_from_dict h m qc") (simp_all add: load_low_bit_def)
  have i: "m \<notin> set [''static'', ''dynamic'', ''qat'']"
  proof
    assume "m \<in> set [''static'', ''dynamic'', ''qat'']"
    with assms m c d show False by (simp add: load_low_bit_def)
  qed
  from c i have "m \<in> set weight_only_methods"
    by (auto simp: config_classes_def weight_only_methods_def)
  with m d show ?thesis by blast
qed

lemma resolve_weight_dtype_Inr:
  "snd (resolve_weight_dtype b wd) = Inr w \<Longrightarrow> w \<in> set weight_dtypes"
  by (auto simp: resolve_weight_dtype_def weight_dtypes_def split: option.splits if_splits)

lemma skeleton_allocator_int [simp]:
  "skeleton_allocator ''int4_clip'' = Build_woq_model"
  "skeleton_allocator ''int8'' = Build_woq_model"
  by (simp_all add: skeleton_allocator_def skeleton_excluded_def)

text \<open>
  C1 (as amended). At reload, for a weight-only method whose config class accepts the
  persisted entries: with \<^verbatim>\<open>weight_dtype\<close> unset, \<^verbatim>\<open>bits = 4\<close> resolves it to
  \<^verbatim>\<open>int4_clip\<close> and \<^verbatim>\<open>bits = 8\<close> to \<^verbatim>\<open>int8\<close>; every other \<^verbatim>\<open>bits\<close> value resolves it
  to \<^verbatim>\<open>int4_clip\<close> as well, with a warning and without the resolution raising. A
  \<^verbatim>\<open>weight_dtype\<close> that is set wins over \<^verbatim>\<open>bits\<close>: it is kept when it is one of the
  eight recognized names, and otherwise the reload raises the \<^verbatim>\<open>ValueError\<close>. With the
  dtype resolved, the reload returns the skeleton unless the allocator raises.
\<close>

theorem load_low_bit_weight_dtype_resolution:
  assumes "quant_method qc = Some m" and "m \<in> set weight_only_methods"
    and "class_from_dict h m qc = Inr qd"
  shows
    "(weight_dtype qd = None \<and> bits qd = Some 4 \<longrightarrow>
        (\<exists>qr. weight_dtype qr = Some ''int4_clip'' \<and>
           snd (load_low_bit h uc ux td qc) =
             (case allocation_error h Build_woq_model qr of
                Some e \<Rightarrow> Inl e | None \<Rightarrow> Inr (Skeleton qr Build_woq_model)))) \<and>
     (weight_dtype qd = None \<and> bits qd = Some 8 \<longrightarrow>
        (\<exists>qr. weight_dtype qr = Some ''int8'' \<and>
           snd (load_low_bit h uc ux td qc) =
             (case allocation_error h Build_woq_model qr of
                Some e \<Rightarrow> Inl e | None \<Rightarrow> Inr (Skeleton qr Build_woq_model)))) \<and>
     (weight_dtype qd = None \<and> bits qd \<noteq> Some 4 \<and> bits qd \<noteq> Some 8 \<longrightarrow>
        (\<exists>qr. weight_dtype qr = Some ''int4_clip'' \<and>
           snd (load_low_bit h uc ux td qc) =
             (case allocation_error h Build_woq_model qr of
                Some e \<Rightarrow> Inl e | None \<Rightarrow> Inr (Skeleton qr Build_woq_model)))
        \<and> (LWarning, ''bits number only supports 4, 8.'') \<in> set (fst (load_low_bit h uc ux td qc))) \<and>
     (\<forall>w. weight_dtype qd = Some w \<and> w \<in> set weight_dtypes \<longrightarrow>
        (\<exists>qr. weight_dtype qr = Some w \<and>
           snd (load_low_bit h uc ux td qc) =
             (case allocation_error h (skeleton_allocator w) qr of
                Some e \<Rightarrow> Inl e | None \<Rightarrow> Inr (Skeleton qr (skeleton_allocator w))))) \<and>
     (\<forall>w. weight_dtype qd = Some w \<and> w \<notin> set weight_dtypes \<longrightarrow>
        snd (load_low_bit h uc ux td qc) = Inl (ValueError weight_dtype_message))"
proof -
  have r: "\<exists>qr. weight_dtype qr = Some w \<and>
           snd (load_low_bit h uc ux td qc) =
             (case allocation_error h (skeleton_allocator w) qr of
                Some e \<Rightarrow> Inl e | None \<Rightarrow> Inr (Skeleton qr (skeleton_allocator w)))"
    if "snd (resolve_weight_dtype (bits qd) (weight_dtype qd)) = Inr w" for w
    unfolding load_low_bit_weight_only [OF assms] resolve_dtypes_eq that
    by (intro exI [of _ "qd\<lparr>compute_dtype := Some (resolve_compute_dtype h uc ux td (compute_dtype qd)),
                             scale_dtype := Some (snd (resolve_scale_dtype (scale_dtype qd))),
                             weight_dtype := Some w\<rparr>"]) simp
  have 1: "\<exists>qr. weight_dtype qr = Some ''int4_clip'' \<and>
           snd (load_low_bit h uc ux td qc) =
             (case allocation_error h Build_woq_model qr of
                Some e \<Rightarrow> Inl e | None \<Rightarrow> Inr (Skeleton qr Build_woq_model))"
    if "weight_dtype qd = None" and "bits qd \<noteq> Some 8"
  proof -
    from that have "snd (resolve_weight_dtype (bits qd) (weight_dtype qd)) = Inr ''int4_clip''"
      by (simp add: resolve_weight_dtype_def)
    from r [OF this] show ?thesis unfolding skeleton_allocator_int .
  qed
  have 2: "\<exists>qr. weight_dtype qr = Some ''int8'' \<and>
           snd (load_low_bit h uc ux td qc) =
             (case allocation_error h Build_woq_model qr of
                Some e \<Rightarrow> Inl e | None \<Rightarrow> Inr (Skeleton qr Build_woq_model))"
    if "weight_dtype qd = None" and "bits qd = Some 8"
  proof -
    from that have "snd (resolve_weight_dtype (bits qd) (weight_dtype qd)) = Inr ''int8''"
      by (simp add: resolve_weight_dtype_def)
    from r [OF this] show ?thesis unfolding skeleton_allocator_int .
  qed
  have 3: "(LWarning, ''bits number only supports 4, 8.'') \<in> set (fst (load_low_bit h uc ux td qc))"
    if "weight_dtype qd = None" and "bits qd \<noteq> Some 4" and "bits qd \<noteq> Some 8"
    unfolding load_low_bit_weight_only [OF assms] resolve_dtypes_eq
    using that by (simp add: resolve_weight_dtype_def)
  have 4: "\<exists>qr. weight_dtype qr = Some w \<and>
           snd (load_low_bit h uc ux td qc) =
             (case allocation_error h (skeleton_allocator w) qr of
                Some e \<Rightarrow> Inl e | None \<Rightarrow> Inr (Skeleton qr (skeleton_allocator w)))"
    if "weight_dtype qd = Some w" and "w \<in> set weight_dtypes" for w
  proof -
    from that have "snd (resolve_weight_dtype (bits qd) (weight_dtype qd)) = Inr w"
      by (simp add: resolve_weight_dtype_def)
    from r [OF this] show ?thesis .
  qed
  have 5: "snd (load_low_bit h uc ux td qc) = Inl (ValueError weight_dtype_message)"
    if "weight_dtype qd = Some w" and "w \<notin> set weight_dtypes" for w
    unfolding load_low_bit_weight_only [OF assms] resolve_dtypes_eq
    using that by (simp add: resolve_weight_dtype_def)
  from 1 2 3 4 5 show ?thesis by simp
qed

theorem load_low_bit_weight_dtype_resolution_witness:
  "snd (load_low_bit example_host True False None (example_config (Some 4) None None))
     = Inr (Skeleton (example_config (Some 4) (Some ''int4_clip'') (Some ''fp32'')) Build_woq_model) \<and>
   snd (load_low_bit example_host True False None (example_config (Some 8) None None))
     = Inr (Skeleton (example_config (Some 8) (Some ''int8'') (Some ''fp32'')) Build_woq_model) \<and>
   snd (load_low_bit example_host True False None (example_config (Some 3) None None))
     = Inr (Skeleton (example_config (Some 3) (Some ''int4_clip'') (Some ''fp32'')) Build_woq_model) \<and>
   snd (load_low_bit example_host True False None (example_config None None None))
     = Inl (TypeError ''bits'') \<and>
   snd (load_low_bit example_host True False None (example_config (Some 8) (Some ''nf4'') None))
     = Inr (Skeleton (example_config (Some 8) (Some ''nf4'') (Some ''fp32'')) Replace_linear) \<and>
   snd (load_low_bit example_host True False None (example_config (Some 4) (Some ''int3'') None))
     = Inl (ValueError weight_dtype_message)"
proof -
  have int3: "''int3'' \<notin> set weight_dtypes"
    by (simp add: weight_dtypes_def)
  have 5: "snd (load_low_bit example_host True False None (example_config (Some 4) (Some ''int3'') None))
        = Inl (ValueError weight_dtype_message)"
    using load_low_bit_weight_dtype_resolution
            [OF example_config_simps(1) rtn_weight_only example_host_rtn(1),
             of "Some 4" "Some ''int3''" None True False None] int3
    by simp
  have e: "\<And>b wd. snd (load_low_bit example_host True False None (example_config b wd None)) =
     (case snd (resolve_weight_dtype b wd) of
        Inl e \<Rightarrow> Inl e
      | Inr w \<Rightarrow>
          (case example_allocation (skeleton_allocator w) (example_config b (Some w) (Some ''fp32'')) of
             Some e \<Rightarrow> Inl e
           | None \<Rightarrow> Inr (Skeleton (example_config b (Some w) (Some ''fp32''))
                          (skeleton_allocator w))))"
    unfolding load_low_bit_weight_only [OF example_config_simps(1) rtn_weight_only example_host_rtn(1)]
      resolve_dtypes_eq
    by (simp add: example_config_def example_host_def resolve_compute_dtype_def
        resolve_scale_dtype_def scale_dtypes_def split: sum.splits option.splits)
  have 1: "snd (load_low_bit example_host True False None (example_config (Some 4) None None))
     = Inr (Skeleton (example_config (Some 4) (Some ''int4_clip'') (Some ''fp32'')) Build_woq_model)"
    and 2: "snd (load_low_bit example_host True False None (example_config (Some 8) None None))
     = Inr (Skeleton (example_config (Some 8) (Some ''int8'') (Some ''fp32'')) Build_woq_model)"
    and 3: "snd (load_low_bit example_host True False None (example_config (Some 3) None None))
     = Inr (Skeleton (example_config (Some 3) (Some ''int4_clip'') (Some ''fp32'')) Build_woq_model)"
    and 4: "snd (load_low_bit example_host True False None (example_config None None None))
     = Inl (TypeError ''bits'')"
    and 6: "snd (load_low_bit example_host True False None (example_config (Some 8) (Some ''nf4'') None))
     = Inr (Skeleton (example_config (Some 8) (Some ''nf4'') (Some ''fp32'')) Replace_linear)"
    unfolding e
    by (simp_all add: resolve_weight_dtype_def weight_dtypes_def example_allocation_def
        skeleton_allocator_def skeleton_excluded_def)
  from 1 2 3 4 5 6 show ?thesis by blast
qed

text \<open>
  C1 as the claim states it fails: with \<^verbatim>\<open>weight_dtype\<close> unset and \<^verbatim>\<open>bits = 3\<close> the
  reload of an RTN checkpoint does not fail; it logs two warnings and goes on with
  \<^verbatim>\<open>int4_clip\<close>.
\<close>

theorem load_low_bit_other_bits_counterexample:
  "load_low_bit example_host True False None (example_config (Some 3) None None) =
     ([(LInfo, ''loading weights file''),
       (LWarning, ''bits number only supports 4, 8.''),
       (LWarning,
        ''int4_clip weight_dtype is used, please change the config.json if you don't want to use it.'')],
      Inr (Skeleton (example_config (Some 3) (Some ''int4_clip'') (Some ''fp32'')) Build_woq_model))"
  by (simp add: load_low_bit_def resolve_dtypes_def example_config_def example_host_def
      example_from_dict_def example_allocation_def config_classes_def
      resolve_compute_dtype_def resolve_scale_dtype_def scale_dtypes_def resolve_weight_dtype_def
      skeleton_allocator_def skeleton_excluded_def)

text \<open>
  C2. At reload, whenever the dtypes resolve, the resolved \<^verbatim>\<open>weight_dtype\<close> is one of
  the recognized names, and the empty-weight skeleton is allocated by
  \<^verbatim>\<open>replace_linear\<close> when it is one of \<^verbatim>\<open>fp8_e5m2\<close>, \<^verbatim>\<open>fp8_e4m3\<close>, \<^verbatim>\<open>nf4\<close>, \<^verbatim>\<open>fp4\<close>,
  \<^verbatim>\<open>int4_fullrange\<close>, and by \<^verbatim>\<open>build_woq_model\<close> otherwise.
\<close>

theorem load_low_bit_skeleton_allocator:
  assumes "snd (load_low_bit h uc ux td qc) = Inr (Skeleton qc' a)"
  shows "\<exists>w. weight_dtype qc' = Some w \<and> w \<in> set weight_dtypes \<and>
           a = (if w \<in> set [''fp8_e5m2'', ''fp8_e4m3'', ''nf4'', ''fp4'', ''int4_fullrange'']
                then Replace_linear else Build_woq_model)"
proof -
  from load_low_bit_Skeleton_method [OF assms] obtain m qd
    where m: "quant_method qc = Some m" "m \<in> set weight_only_methods"
      "class_from_dict h m qc = Inr qd" by blast
  show ?thesis
  proof (cases "snd (resolve_weight_dtype (bits qd) (weight_dtype qd))")
    case (Inl e)
    with assms show ?thesis
      unfolding load_low_bit_weight_only [OF m] resolve_dtypes_eq by simp
  next
    case (Inr w)
    with assms have "weight_dtype qc' = Some w" and "a = skeleton_allocator w"
      unfolding load_low_bit_weight_only [OF m] resolve_dtypes_eq
      by (auto split: option.splits)
    moreover have "w \<in> set weight_dtypes"
      using Inr by (rule resolve_weight_dtype_Inr)
    ultimately show ?thesis
      by (auto simp: skeleton_allocator_def skeleton_excluded_def)
  qed
qed

theorem load_low_bit_skeleton_allocator_witness:
  "snd (load_low_bit example_host True False None (example_config None (Some ''nf4'') None))
     = Inr (Skeleton (example_config None (Some ''nf4'') (Some ''fp32'')) Replace_linear) \<and>
   snd (load_low_bit example_host True False None (example_config (Some 8) (Some ''int8'') None))
     = Inr (Skeleton (example_config (Some 8) (Some ''int8'') (Some ''fp32'')) Build_woq_model)"
proof -
  have a: "snd (load_low_bit example_host True False None (example_config None (Some ''nf4'') None))
     = Inr (Skeleton (example_config None (Some ''nf4'') (Some ''fp32''))
             (skeleton_allocator ''nf4''))"
    by (simp add: load_low_bit_def resolve_dtypes_def example_config_def example_host_def
      example_from_dict_def example_allocation_def config_classes_def
      resolve_compute_dtype_def resolve_scale_dtype_def scale_dtypes_def resolve_weight_dtype_def
      weight_dtypes_def skeleton_allocator_def skeleton_excluded_def)
  have b: "snd (load_low_bit example_host True False None (example_config (Some 8) (Some ''int8'') None))
     = Inr (Skeleton (example_config (Some 8) (Some ''int8'') (Some ''fp32''))
             (skeleton_allocator ''int8''))"
    by (simp add: load_low_bit_def resolve_dtypes_def example_config_def example_host_def
      example_from_dict_def example_allocation_def config_classes_def
      resolve_compute_dtype_def resolve_scale_dtype_def scale_dtypes_def resolve_weight_dtype_def
      weight_dtypes_def)
  have ra: "skeleton_allocator ''nf4'' = Replace_linear"
    using load_low_bit_skeleton_allocator [OF a] by simp
  have rb: "skeleton_allocator ''int8'' = Build_woq_model"
    using load_low_bit_skeleton_allocator [OF b] by simp
  show ?thesis
    unfolding a b ra rb by simp
qed







section \<open>Properties of the calibration pipeline\<close>

text \<open>
  C6. Tokenization uses the \<^verbatim>\<open>code\<close> field when present, otherwise the \<^verbatim>\<open>prompt\<close>
  field, otherwise the \<^verbatim>\<open>text\<close> field; with none of the three the pipeline logs an
  error and exits, and it fails in no other case.
\<close>

theorem tokenize_function_field_priority:
  "(\<forall>c. examples ''code'' = Some c \<longrightarrow>
       tokenize_function tokenizer examples = ([], Inr (tokenizer c))) \<and>
   (\<forall>p. examples ''code'' = None \<and> examples ''prompt'' = Some p \<longrightarrow>
       tokenize_function tokenizer examples = ([], Inr (tokenizer p))) \<and>
   (\<forall>t. examples ''code'' = None \<and> examples ''prompt'' = None \<and> examples ''text'' = Some t \<longrightarrow>
       tokenize_function tokenizer examples = ([], Inr (tokenizer t))) \<and>
   (examples ''code'' = None \<and> examples ''prompt'' = None \<and> examples ''text'' = None \<longrightarrow>
       snd (tokenize_function tokenizer examples) = Inl SystemExit \<and>
       (\<exists>msg. fst (tokenize_function tokenizer examples) = [(LError, msg)])) \<and>
   (isl (snd (tokenize_function tokenizer examples)) \<longleftrightarrow>
       ''code'' \<notin> dom examples \<and> ''prompt'' \<notin> dom examples \<and> ''text'' \<notin> dom examples)"
  by (auto simp: tokenize_function_def split: option.splits)

theorem tokenize_function_field_priority_witness:
  "tokenize_function length [''code'' \<mapsto> ''def f'', ''text'' \<mapsto> ''abc''] = ([], Inr 5) \<and>
   tokenize_function length [''prompt'' \<mapsto> ''hello!'', ''text'' \<mapsto> ''abc''] = ([], Inr 6) \<and>
   tokenize_function length [''text'' \<mapsto> ''abc''] = ([], Inr 3) \<and>
   snd (tokenize_function length [''label'' \<mapsto> ''abc'']) = Inl SystemExit"
  using tokenize_function_field_priority
          [of "[''code'' \<mapsto> ''def f'', ''text'' \<mapsto> ''abc'']" length]
        tokenize_function_field_priority
          [of "[''prompt'' \<mapsto> ''hello!'', ''text'' \<mapsto> ''abc'']" length]
        tokenize_function_field_priority [of "[''text'' \<mapsto> ''abc'']" length]
        tokenize_function_field_priority [of "[''label'' \<mapsto> ''abc'']" length]
  by simp

lemma prepare_input_ids_calibrated:
  assumes "0 < calib_len"
  shows "prepare_input_ids stored p calib_len v ids
           = Inr (calibrated p calib_len (stored v) ids)"
proof (cases p)
  case False
  then show ?thesis using assms
    by (auto simp: prepare_input_ids_def calibrated_def clip_to_def slice_to_def)
next
  case True
  show ?thesis
  proof (cases "int (length ids) \<le> calib_len")
    case le: True
    then have "nat (calib_len - int (length ids)) = nat calib_len - length ids" by simp
    with True le assms show ?thesis
      by (simp add: prepare_input_ids_def calibrated_def pad_def)
  next
    case gt: False
    then have "nat calib_len - length ids = 0" by simp
    with True gt assms show ?thesis
      by (simp add: prepare_input_ids_def calibrated_def pad_def)
  qed
qed

lemma length_calibrated:
  assumes "0 < calib_len"
  shows "int (length (calibrated p calib_len x ids)) =
           (if p then calib_len else min calib_len (int (length ids)))"
  using assms by (auto simp: calibrated_def min_def)

lemma prepare_rows_calibrated:
  assumes "0 < calib_len"
  shows "prepare_rows stored p calib_len v batch = Inr (calibrated_rows p calib_len (stored v) batch)"
  by (induction batch)
     (simp_all add: calibrated_rows_def prepare_input_ids_calibrated [OF assms])

lemma calibrated_rows_single:
  "calibrated_rows p calib_len x [t] = [calibrated p calib_len x (input_ids t)]"
  by (simp add: calibrated_rows_def)

lemma vstack_stackable: "stackable rows \<Longrightarrow> vstack rows = Inr rows"
  by (cases rows) (auto simp: vstack_def stackable_def)

lemma vstack_not_stackable: "\<not> stackable rows \<Longrightarrow> isl (vstack rows)"
  by (cases rows) (auto simp: vstack_def stackable_def)

lemma stackable_single [simp]: "stackable [r]"
  by (simp add: stackable_def)

lemma stackable_map:
  assumes "\<And>r s. length (f r) = length (f s) \<longleftrightarrow> length r = length s"
  shows "stackable (map f rows) = stackable rows"
  by (cases rows) (auto simp: stackable_def list_all_iff assms)

lemma stackable_padded:
  assumes "0 < calib_len" and "batch \<noteq> []"
  shows "stackable (calibrated_rows True calib_len x batch)"
proof -
  have "length (calibrated True calib_len x ids) = nat calib_len" for ids
    using length_calibrated [OF assms(1), of True x ids] by simp
  with assms(2) show ?thesis
    by (cases batch) (simp_all add: stackable_def calibrated_rows_def list_all_iff)
qed

lemma collate_batch_stackable:
  assumes "0 < calib_len" and "stackable (calibrated_rows p calib_len (stored v) batch)"
  shows "collate_batch stored p calib_len v mt req past batch =
     (let rows = calibrated_rows p calib_len (stored v) batch;
          att = map (\<lambda>r. if mt \<in> set [''bloom'', ''qwen''] then 0 # replicate (length r) 1
                          else replicate (length r) 1) rows;
          last_ind = map (\<lambda>r. int (length r) - 1) rows
      in if mt \<in> req then
           Inr ([''input_ids'' \<mapsto> Tensor rows, ''attention_mask'' \<mapsto> Tensor att,
                 ''position_ids'' \<mapsto> Tensor (map (\<lambda>r. map int [0..<length r]) rows),
                 ''past_key_values'' \<mapsto> Past_key_values past],
                last_ind)
         else
           Inr ([''input_ids'' \<mapsto> Tensor rows, ''attention_mask'' \<mapsto> Tensor att,
                 ''past_key_values'' \<mapsto> Past_key_values past],
                last_ind))"
proof -
  let ?rows = "calibrated_rows p calib_len (stored v) batch"
  let ?att = "map (\<lambda>r. if mt \<in> set [''bloom'', ''qwen''] then 0 # replicate (length r) 1
                          else replicate (length r) (1::int)) ?rows"
  let ?pos = "map (\<lambda>r. map int [0..<length r]) ?rows"
  have rows: "vstack ?rows = Inr ?rows"
    by (rule vstack_stackable) (rule assms(2))
  have "stackable ?att"
    using assms(2) by (subst stackable_map) simp_all
  then have att: "vstack ?att = Inr ?att" by (rule vstack_stackable)
  have "stackable ?pos"
    using assms(2) by (subst stackable_map) simp_all
  then have pos: "vstack ?pos = Inr ?pos" by (rule vstack_stackable)
  show ?thesis
    unfolding collate_batch_def prepare_rows_calibrated [OF assms(1)] Let_def
    by (simp only: rows att pos sum.case if_True if_False split: if_splits)
qed

lemma collate_batch_not_stackable:
  assumes "0 < calib_len" and "\<not> stackable (calibrated_rows p calib_len (stored v) batch)"
  shows "isl (collate_batch stored p calib_len v mt req past batch)"
proof -
  from vstack_not_stackable [OF assms(2)]
  obtain e where "vstack (calibrated_rows p calib_len (stored v) batch) = Inl e"
    by (auto simp: isl_def)
  then show ?thesis
    unfolding collate_batch_def prepare_rows_calibrated [OF assms(1)] Let_def by simp
qed

lemma collate_batch_static_stackable:
  assumes "0 < calib_len" and "stackable (calibrated_rows p calib_len (stored v) batch)"
  shows "collate_batch_static stored p calib_len v batch =
     Inr ([''input_ids'' \<mapsto> Tensor (calibrated_rows p calib_len (stored v) batch)],
          map (\<lambda>r. int (length r) - 1) (calibrated_rows p calib_len (stored v) batch))"
  unfolding collate_batch_static_def prepare_rows_calibrated [OF assms(1)]
  by (simp add: vstack_stackable [OF assms(2)])

lemma collate_batch_static_not_stackable:
  assumes "0 < calib_len" and "\<not> stackable (calibrated_rows p calib_len (stored v) batch)"
  shows "isl (collate_batch_static stored p calib_len v batch)"
proof -
  from vstack_not_stackable [OF assms(2)]
  obtain e where "vstack (calibrated_rows p calib_len (stored v) batch) = Inl e"
    by (auto simp: isl_def)
  then show ?thesis
    unfolding collate_batch_static_def prepare_rows_calibrated [OF assms(1)] by simp
qed

lemma collate_batch_single:
  assumes "0 < calib_len"
  shows "collate_batch stored p calib_len v mt req past [t] =
     (let row = calibrated p calib_len (stored v) (input_ids t);
          att = (if mt \<in> set [''bloom'', ''qwen''] then 0 # replicate (length row) 1
                 else replicate (length row) 1)
      in if mt \<in> req then
           Inr ([''input_ids'' \<mapsto> Tensor [row], ''attention_mask'' \<mapsto> Tensor [att],
                 ''position_ids'' \<mapsto> Tensor [map int [0..<length row]],
                 ''past_key_values'' \<mapsto> Past_key_values past],
                [int (length row) - 1])
         else
           Inr ([''input_ids'' \<mapsto> Tensor [row], ''attention_mask'' \<mapsto> Tensor [att],
                 ''past_key_values'' \<mapsto> Past_key_values past],
                [int (length row) - 1]))"
  by (simp add: collate_batch_def prepare_input_ids_calibrated [OF assms] vstack_def Let_def)

lemma collate_batch_static_single:
  assumes "0 < calib_len"
  shows "collate_batch_static stored p calib_len v [t] =
     Inr ([''input_ids'' \<mapsto> Tensor [calibrated p calib_len (stored v) (input_ids t)]],
          [int (length (calibrated p calib_len (stored v) (input_ids t))) - 1])"
  by (simp add: collate_batch_static_def prepare_input_ids_calibrated [OF assms] vstack_def)

lemma clip_to_take: "0 < calib_len \<Longrightarrow> clip_to calib_len ids = take (nat calib_len) ids"
  by (auto simp: clip_to_def slice_to_def)

lemma collate_batch_for_chatglm_last:
  assumes "0 < calib_len" and "batch \<noteq> []"
  shows "batch_entry (collate_batch_for_chatglm calib_len six pos past batch) ''input_ids''
     = Some (Tensor [take (nat calib_len) (input_ids (last batch))
                      @ (if six then [130001, 130004] else [])])"
  using assms(2)
  by (simp add: batch_entry_def collate_batch_for_chatglm_def clip_to_take [OF assms(1)]
      Let_def last_map)

lemma collate_batch_for_chatglm_single:
  assumes "0 < calib_len"
  shows "collate_batch_for_chatglm calib_len six pos past [t] =
     (let row = take (nat calib_len) (input_ids t) @ (if six then [130001, 130004] else [])
      in Inr ([''input_ids'' \<mapsto> Tensor [row],
               ''attention_mask'' \<mapsto> Tensor [replicate (length row) 1],
               ''position_ids'' \<mapsto> Tensor (pos [row]),
               ''past_key_values'' \<mapsto> Past_key_values past],
              [int (length row) - 1]))"
  by (simp add: collate_batch_for_chatglm_def clip_to_take [OF assms] Let_def)

text \<open>
  C4 (as amended). For \<^verbatim>\<open>calib_len > 0\<close>, the default collators (\<^verbatim>\<open>collate_batch\<close> of
  the SmoothQuant pathway and of the static and quantization-aware-training pathways)
  make of every record the row of its first \<^verbatim>\<open>calib_len\<close> tokens: at most
  \<^verbatim>\<open>calib_len\<close> tokens when padding is disabled, and exactly \<^verbatim>\<open>calib_len\<close>, padded at
  the right with the element that torch stores for \<^verbatim>\<open>calib_pad_val\<close>, when it is
  enabled. Where these rows can be stacked, at least one and all of one length, they
  are the \<^verbatim>\<open>input_ids\<close> of the batch, and otherwise the collator fails; they can be
  stacked for a batch of one record, and with padding enabled for every batch that is
  not empty. The chatglm collator does not look at the padding flag: its
  \<^verbatim>\<open>input_ids\<close> are the first \<^verbatim>\<open>calib_len\<close> tokens of the last record of the batch,
  followed by the two tokens 130001 and 130004 for a THUDM/chatglm-6b model.
\<close>

theorem collators_input_ids:
  assumes "0 < calib_len"
  shows
    "batch_entry (collate_batch stored calib_padding calib_len calib_pad_val model_type requiring
                    (past :: 'p) [t])
         ''input_ids''
       = Some (Tensor [calibrated calib_padding calib_len (stored calib_pad_val) (input_ids t)]) \<and>
     batch_entry (collate_batch_static stored calib_padding calib_len calib_pad_val [t]
                    :: error + (string \<rightharpoonup> 'p entry) \<times> int list) ''input_ids''
       = Some (Tensor [calibrated calib_padding calib_len (stored calib_pad_val) (input_ids t)]) \<and>
     int (length (calibrated calib_padding calib_len (stored calib_pad_val) (input_ids t)))
       = (if calib_padding then calib_len else min calib_len (int (length (input_ids t)))) \<and>
     batch_entry (collate_batch_for_chatglm calib_len chatglm_6b position_ids_of past [t])
         ''input_ids''
       = Some (Tensor [take (nat calib_len) (input_ids t)
                        @ (if chatglm_6b then [130001, 130004] else [])]) \<and>
     (stackable (calibrated_rows calib_padding calib_len (stored calib_pad_val) batch) \<longrightarrow>
        batch_entry (collate_batch stored calib_padding calib_len calib_pad_val model_type
                       requiring past batch) ''input_ids''
          = Some (Tensor (calibrated_rows calib_padding calib_len (stored calib_pad_val) batch)) \<and>
        batch_entry (collate_batch_static stored calib_padding calib_len calib_pad_val batch
                       :: error + (string \<rightharpoonup> 'p entry) \<times> int list) ''input_ids''
          = Some (Tensor (calibrated_rows calib_padding calib_len (stored calib_pad_val) batch))) \<and>
     (\<not> stackable (calibrated_rows calib_padding calib_len (stored calib_pad_val) batch) \<longrightarrow>
        isl (collate_batch stored calib_padding calib_len calib_pad_val model_type requiring
               past batch) \<and>
        isl (collate_batch_static stored calib_padding calib_len calib_pad_val batch
               :: error + (string \<rightharpoonup> 'p entry) \<times> int list)) \<and>
     (calib_padding \<and> batch \<noteq> [] \<longrightarrow>
        stackable (calibrated_rows calib_padding calib_len (stored calib_pad_val) batch)) \<and>
     (batch \<noteq> [] \<longrightarrow>
        batch_entry (collate_batch_for_chatglm calib_len chatglm_6b position_ids_of past batch)
            ''input_ids''
          = Some (Tensor [take (nat calib_len) (input_ids (last batch))
                           @ (if chatglm_6b then [130001, 130004] else [])]))"
proof -
  let ?rows = "calibrated_rows calib_padding calib_len (stored calib_pad_val) batch"
  have single:
    "batch_entry (collate_batch stored calib_padding calib_len calib_pad_val model_type requiring
                    past [t])
         ''input_ids''
       = Some (Tensor [calibrated calib_padding calib_len (stored calib_pad_val) (input_ids t)])"
    by (simp add: batch_entry_def collate_batch_single [OF assms] Let_def)
  have static_single:
    "batch_entry (collate_batch_static stored calib_padding calib_len calib_pad_val [t]
                    :: error + (string \<rightharpoonup> 'p entry) \<times> int list) ''input_ids''
       = Some (Tensor [calibrated calib_padding calib_len (stored calib_pad_val) (input_ids t)])"
    by (simp add: batch_entry_def collate_batch_static_single [OF assms])
  have len:
    "int (length (calibrated calib_padding calib_len (stored calib_pad_val) (input_ids t)))
       = (if calib_padding then calib_len else min calib_len (int (length (input_ids t))))"
    by (rule length_calibrated [OF assms])
  have chatglm_single:
    "batch_entry (collate_batch_for_chatglm calib_len chatglm_6b position_ids_of past [t])
         ''input_ids''
       = Some (Tensor [take (nat calib_len) (input_ids t)
                        @ (if chatglm_6b then [130001, 130004] else [])])"
    by (simp add: batch_entry_def collate_batch_for_chatglm_single [OF assms] Let_def)
  have rows:
    "batch_entry (collate_batch stored calib_padding calib_len calib_pad_val model_type
                    requiring past batch) ''input_ids'' = Some (Tensor ?rows) \<and>
     batch_entry (collate_batch_static stored calib_padding calib_len calib_pad_val batch
                    :: error + (string \<rightharpoonup> 'p entry) \<times> int list) ''input_ids''
       = Some (Tensor ?rows)"
    if "stackable ?rows"
    by (simp add: batch_entry_def collate_batch_stackable [where stored = stored and v = calib_pad_val, OF assms that]
        collate_batch_static_stackable [where stored = stored and v = calib_pad_val, OF assms that] Let_def)
  have fails:
    "isl (collate_batch stored calib_padding calib_len calib_pad_val model_type requiring
            past batch) \<and>
     isl (collate_batch_static stored calib_padding calib_len calib_pad_val batch
            :: error + (string \<rightharpoonup> 'p entry) \<times> int list)"
    if "\<not> stackable ?rows"
    by (intro conjI
        collate_batch_not_stackable [where stored = stored and v = calib_pad_val, OF assms that]
        collate_batch_static_not_stackable [where stored = stored and v = calib_pad_val,
          OF assms that])
  have padded: "stackable ?rows" if "calib_padding \<and> batch \<noteq> []"
    using that stackable_padded [OF assms, of batch "stored calib_pad_val"] by simp
  have chatglm:
    "batch_entry (collate_batch_for_chatglm calib_len chatglm_6b position_ids_of past batch)
         ''input_ids''
       = Some (Tensor [take (nat calib_len) (input_ids (last batch))
                        @ (if chatglm_6b then [130001, 130004] else [])])"
    if "batch \<noteq> []"
    by (rule collate_batch_for_chatglm_last [OF assms that])
  show ?thesis
    apply (intro conjI impI)
            apply (rule single)
           apply (rule static_single)
          apply (rule len)
         apply (rule chatglm_single)
        apply (erule rows [THEN conjunct1])
       apply (erule rows [THEN conjunct2])
      apply (erule fails [THEN conjunct1])
     apply (erule fails [THEN conjunct2])
    apply (erule padded)
    apply (erule chatglm)
    done
qed

theorem collators_input_ids_witness:
  "batch_entry (collate_batch example_stored True 4 0 ''llama'' {''llama''} ()
       [\<lparr>input_ids = [7, 8]\<rparr>]) ''input_ids''
     = Some (Tensor [[7, 8, 0, 0]]) \<and>
   batch_entry (collate_batch example_stored False 4 0 ''opt'' {''llama''} ()
       [\<lparr>input_ids = [1, 2, 3, 4, 5, 6]\<rparr>]) ''input_ids''
     = Some (Tensor [[1, 2, 3, 4]]) \<and>
   batch_entry (collate_batch_for_chatglm 4 False id () [\<lparr>input_ids = [1, 2, 3, 4, 5, 6]\<rparr>])
       ''input_ids''
     = Some (Tensor [[1, 2, 3, 4]]) \<and>
   batch_entry (collate_batch_static example_stored True 4 0
       [\<lparr>input_ids = [7, 8]\<rparr>, \<lparr>input_ids = [1, 2, 3, 4, 5, 6]\<rparr>]
         :: error + (string \<rightharpoonup> unit entry) \<times> int list) ''input_ids''
     = Some (Tensor [[7, 8, 0, 0], [1, 2, 3, 4]]) \<and>
   isl (collate_batch_static example_stored False 4 0
       [\<lparr>input_ids = [7, 8]\<rparr>, \<lparr>input_ids = [1, 2, 3, 4, 5, 6]\<rparr>]
         :: error + (string \<rightharpoonup> unit entry) \<times> int list)"
proof -
  have p: "(0::int) < 4" by simp
  have a: "calibrated True 4 (example_stored 0) [7, 8] = [7, 8, 0, 0]"
    and b: "calibrated False 4 (example_stored 0) [1, 2, 3, 4, 5, 6] = [1, 2, 3, 4]"
    by (simp_all add: calibrated_def example_stored_def numeral_eq_Suc)
  have c: "take (nat 4) [1, 2, 3, 4, 5, 6 :: int] = [1, 2, 3, 4]"
    by (simp add: numeral_eq_Suc)
  have d: "calibrated_rows True 4 (example_stored 0)
             [\<lparr>input_ids = [7, 8]\<rparr>, \<lparr>input_ids = [1, 2, 3, 4, 5, 6]\<rparr>]
           = [[7, 8, 0, 0], [1, 2, 3, 4]]"
    and e: "calibrated_rows False 4 (example_stored 0)
             [\<lparr>input_ids = [7, 8]\<rparr>, \<lparr>input_ids = [1, 2, 3, 4, 5, 6]\<rparr>]
           = [[7, 8], [1, 2, 3, 4]]"
    by (simp_all add: calibrated_rows_def calibrated_def example_stored_def numeral_eq_Suc)
  have f: "stackable [[7, 8, 0, 0], [1, 2, 3, 4 :: int]]"
    and g: "\<not> stackable [[7, 8], [1, 2, 3, 4 :: int]]"
    by (simp_all add: stackable_def)
  show ?thesis
    using collators_input_ids [OF p, where stored = example_stored and calib_padding = True
          and calib_pad_val = 0
          and model_type = "''llama''" and requiring = "{''llama''}" and past = "()"
          and t = "\<lparr>input_ids = [7, 8]\<rparr>" and chatglm_6b = False and position_ids_of = id
          and batch = "[\<lparr>input_ids = [7, 8]\<rparr>, \<lparr>input_ids = [1, 2, 3, 4, 5, 6]\<rparr>]"]
      collators_input_ids [OF p, where stored = example_stored and calib_padding = False
          and calib_pad_val = 0
          and model_type = "''opt''" and requiring = "{''llama''}" and past = "()"
          and t = "\<lparr>input_ids = [1, 2, 3, 4, 5, 6]\<rparr>" and chatglm_6b = False
          and position_ids_of = id
          and batch = "[\<lparr>input_ids = [7, 8]\<rparr>, \<lparr>input_ids = [1, 2, 3, 4, 5, 6]\<rparr>]"]
    by (simp add: a b c d e f g)
qed

text \<open>
  C4 as the claim states it fails on the chatglm collator: with \<^verbatim>\<open>calib_len = 2\<close> a
  record of three tokens gives four \<^verbatim>\<open>input_ids\<close> for a THUDM/chatglm-6b model.
\<close>

theorem collate_batch_for_chatglm_counterexample:
  "batch_entry (collate_batch_for_chatglm 2 True id () [\<lparr>input_ids = [5, 6, 7]\<rparr>]) ''input_ids''
     = Some (Tensor [[5, 6, 130001, 130004]])"
  by (simp add: batch_entry_def collate_batch_for_chatglm_def clip_to_def slice_to_def
      numeral_eq_Suc Let_def)




section \<open>Properties of the module graph\<close>

lemma get_module_leaf [simp]:
  "get_module (Linear i out b) p = (if p = [] then Some (Linear i out b) else None)"
  "get_module (QuantizedLinearQBits q bias) p =
     (if p = [] then Some (QuantizedLinearQBits q bias) else None)"
  "get_module (WeightOnlyLinear w) p = (if p = [] then Some (WeightOnlyLinear w) else None)"
  "get_module (WeightOnlyQuantizedLinear tr qw sc) p =
     (if p = [] then Some (WeightOnlyQuantizedLinear tr qw sc) else None)"
  by (cases p; simp)+

lemma recover_children_Cons:
  "recover_children lib ((n, c) # cs) =
     (n, case c of QuantizedLinearQBits q bias \<Rightarrow> WeightOnlyLinear (recover_linear lib q bias)
           | _ \<Rightarrow> recover_export_model lib c) # recover_children lib cs"
  by (cases c) simp_all

lemma recover_export_model_get:
  "get_module m (n # ns) = Some (QuantizedLinearQBits q bias) \<Longrightarrow>
     get_module (recover_export_model lib m) (n # ns)
       = Some (WeightOnlyLinear (recover_linear lib q bias))"
  "get_child cs n ns = Some (QuantizedLinearQBits q bias) \<Longrightarrow>
     get_child (recover_children lib cs) n ns
       = Some (WeightOnlyLinear (recover_linear lib q bias))"
proof (induction m "n # ns" and cs n ns arbitrary: n ns rule: get_module_get_child.induct)
  case (5 n' c cs n ns)
  show ?case
  proof (cases "n' = n")
    case False
    with 5 show ?thesis by (simp add: recover_children_Cons)
  next
    case True
    show ?thesis
    proof (cases ns)
      case Nil
      with True 5(3) show ?thesis by (simp add: recover_children_Cons)
    next
      case (Cons a as)
      with True 5(3) have g: "get_module c (a # as) = Some (QuantizedLinearQBits q bias)" by simp
      then obtain k cs' where c: "c = Container k cs'" by (cases c) simp_all
      from 5(1) [OF True Cons] g Cons
      have "get_module (recover_export_model lib c) ns
              = Some (WeightOnlyLinear (recover_linear lib q bias))"
        by simp
      with True c show ?thesis by (simp add: recover_children_Cons)
    qed
  qed
qed simp_all

lemma recover_linear_g_idx:
  "qp_g_idx q = Some g \<Longrightarrow> g_idx (recover_linear lib q bias) = Some g"
  by (simp add: recover_linear_def Let_def)

text \<open>
  C7. After \<^verbatim>\<open>recover_export_model\<close>, every \<^verbatim>\<open>QuantizedLinearQBits\<close> submodule whose
  recovered \<^verbatim>\<open>g_idx\<close> is not \<^verbatim>\<open>None\<close> has become a \<^verbatim>\<open>WeightOnlyLinear\<close> whose \<^verbatim>\<open>g_idx\<close>
  is that recovered array, whatever the library's constructor and \<^verbatim>\<open>pack\<close> do with
  the \<^verbatim>\<open>desc_act\<close> flag and the \<^verbatim>\<open>g_idx\<close> argument they are given.
\<close>

theorem recover_export_model_g_idx:
  assumes "get_module model (n # ns) = Some (QuantizedLinearQBits q bias)"
    and "qp_g_idx q = Some g"
  shows "\<exists>w. get_module (recover_export_model lib model) (n # ns) = Some (WeightOnlyLinear w)
           \<and> g_idx w = Some g"
  using recover_export_model_get(1) [OF assms(1)] recover_linear_g_idx [OF assms(2)]
  by blast

theorem recover_export_model_g_idx_witness:
  "\<exists>w. get_module (recover_export_model example_library example_model) [''layer'', ''qmlp'']
          = Some (WeightOnlyLinear w) \<and> g_idx w = Some [1, 0, 3, 2]"
proof -
  have a: "get_module example_model [''layer'', ''qmlp'']
             = Some (QuantizedLinearQBits example_qparms None)"
    by (simp add: example_model_def)
  have b: "qp_g_idx example_qparms = Some [1, 0, 3, 2]"
    by (simp add: example_qparms_def)
  from recover_export_model_g_idx [OF a b] show ?thesis .
qed

lemma set_module_frame:
  "\<not> prefix q p \<Longrightarrow> \<not> prefix p q \<Longrightarrow> get_module (set_module m q new) p = get_module m p"
  "\<not> prefix (n # ns) (n0 # ns0) \<Longrightarrow> \<not> prefix (n0 # ns0) (n # ns) \<Longrightarrow>
     get_child (set_child cs n ns new) n0 ns0 = get_child cs n0 ns0"
proof (induction m q new and cs n ns new arbitrary: p and n0 ns0
       rule: set_module_set_child.induct)
  case (1 k cs n ns new)
  then show ?case by (cases p) simp_all
next
  case (4 n' c cs n ns new)
  then show ?case by (auto simp: prefix_Cons)
qed (auto simp: prefix_Cons)

lemma get_child_name: "get_child cs n ns = Some x \<Longrightarrow> n \<in> fst ` set cs"
  by (induction cs) (auto split: if_splits)

lemma named_modules_get:
  "well_formed m \<Longrightarrow> (q, x) \<in> set (named_modules pre m) \<Longrightarrow>
     \<exists>q'. q = pre @ q' \<and> get_module m q' = Some x"
  "well_formed_children cs \<Longrightarrow> distinct (map fst cs) \<Longrightarrow> (q, x) \<in> set (named_children pre cs) \<Longrightarrow>
     \<exists>n ns. q = pre @ n # ns \<and> get_child cs n ns = Some x"
proof (induction pre m and pre cs arbitrary: q x and q x rule: named_modules_named_children.induct)
  case (1 pre k cs)
  from 1(3) consider "q = pre \<and> x = Container k cs" | "(q, x) \<in> set (named_children pre cs)"
    by auto
  then show ?case
  proof cases
    case 1
    then show ?thesis by (intro exI [of _ "[]"]) simp
  next
    case 2
    from 1(1) [OF _ _ 2] 1(2) obtain n ns where "q = pre @ n # ns" "get_child cs n ns = Some x"
      by auto
    then show ?thesis by (intro exI [of _ "n # ns"]) simp
  qed
next
  case (4 pre n c cs)
  from 4(5) consider "(q, x) \<in> set (named_modules (pre @ [n]) c)"
    | "(q, x) \<in> set (named_children pre cs)" by auto
  then show ?case
  proof cases
    case 1
    from 4(1) [OF _ 1] 4(3) obtain q' where "q = (pre @ [n]) @ q'" "get_module c q' = Some x"
      by auto
    then show ?thesis by (intro exI [of _ n] exI [of _ q']) simp
  next
    case 2
    from 4(2) [OF _ _ 2] 4(3,4) obtain n' ns where q: "q = pre @ n' # ns"
      and g: "get_child cs n' ns = Some x" by auto
    from get_child_name [OF g] 4(4) have "n' \<noteq> n" by auto
    with q g show ?thesis by (intro exI [of _ n'] exI [of _ ns]) simp
  qed
qed (auto intro: exI [of _ "[]"])


lemma contains_append: "contains sub s \<Longrightarrow> contains sub (s @ t)"
proof (induction s)
  case Nil
  then show ?case by (cases t) simp_all
next
  case (Cons c cs)
  from Cons.prems consider "take (length sub) (c # cs) = sub" | "contains sub cs" by auto
  then show ?case
  proof cases
    case 1
    then have "length (take (length sub) (c # cs)) = length sub" by simp
    then have le: "length sub \<le> length (c # cs)" by simp
    have "take (length sub) ((c # cs) @ t)
            = take (length sub) (c # cs) @ take (length sub - length (c # cs)) t"
      by (rule take_append)
    also from le have "\<dots> = take (length sub) (c # cs)" by simp
    finally have "take (length sub) (c # cs @ t) = sub" using 1 by simp
    then show ?thesis by simp
  next
    case 2
    with Cons.IH show ?thesis by simp
  qed
qed

lemma qualified_name_append:
  "p \<noteq> [] \<Longrightarrow> \<exists>r. qualified_name (p @ q) = qualified_name p @ r"
proof (induction p rule: qualified_name.induct)
  case (2 n)
  then show ?case by (cases q) simp_all
qed simp_all

lemma head_name_prefix:
  assumes "prefix p q" and "head_name (qualified_name p)"
  shows "head_name (qualified_name q)"
proof -
  from assms(2) have "p \<noteq> []" by (auto simp: head_name_def)
  moreover from assms(1) obtain r where "q = p @ r" by (auto simp: prefix_def)
  ultimately obtain t where "qualified_name q = qualified_name p @ t"
    using qualified_name_append by blast
  with assms(2) show ?thesis by (auto simp: head_name_def contains_append)
qed

lemma get_module_append:
  "get_module (m :: 't module) (q @ r)
     = (case get_module m q of None \<Rightarrow> None | Some c \<Rightarrow> get_module c r)"
  "get_child (cs :: (string \<times> 't module) list) n (ns @ r)
     = (case get_child cs n ns of None \<Rightarrow> None | Some c \<Rightarrow> get_module c r)"
  by (induction m q and cs n ns rule: get_module_get_child.induct) simp_all

lemma linear_is_leaf:
  assumes "get_module m q = Some y" and "linear_features y = Some f"
    and "get_module m p = Some x" and "prefix q p"
  shows "p = q"
proof -
  from assms(4) obtain r where "p = q @ r" by (auto simp: prefix_def)
  with assms(1,2,3) show ?thesis
    by (cases y) (simp_all add: get_module_append(1) split: if_splits)
qed

lemma fold_woq_step_frame:
  assumes "\<And>q y f. (q, y) \<in> set steps \<Longrightarrow> linear_features y = Some f
             \<Longrightarrow> \<not> head_name (qualified_name q) \<Longrightarrow> \<not> prefix q p \<and> \<not> prefix p q"
  shows "get_module (fold (woq_step lib qc) steps acc) p = get_module acc p"
  using assms
proof (induction steps arbitrary: acc)
  case Nil
  then show ?case by simp
next
  case (Cons s steps)
  have "get_module (woq_step lib qc s acc) p = get_module acc p"
  proof (cases "head_name (qualified_name (fst s))")
    case True
    then show ?thesis by (simp add: woq_step_def)
  next
    case False
    show ?thesis
    proof (cases "linear_features (snd s)")
      case None
      with False show ?thesis by (simp add: woq_step_def)
    next
      case (Some f)
      have "(fst s, snd s) \<in> set (s # steps)" by simp
      from Cons.prems [OF this Some False] Some False show ?thesis
        by (simp add: woq_step_def set_module_frame(1) split: prod.splits)
    qed
  qed
  moreover have "get_module (fold (woq_step lib qc) steps (woq_step lib qc s acc)) p
                   = get_module (woq_step lib qc s acc) p"
  proof (rule Cons.IH)
    fix q y f
    assume "(q, y) \<in> set steps" and "linear_features y = Some f"
      and "\<not> head_name (qualified_name q)"
    then show "\<not> prefix q p \<and> \<not> prefix p q"
      using Cons.prems [of q y f] by simp
  qed
  ultimately show ?case by simp
qed

text \<open>
  C5. In a well-formed model, a submodule whose qualified name contains \<^verbatim>\<open>lm_head\<close>,
  \<^verbatim>\<open>output_layer\<close> or \<^verbatim>\<open>embed_out\<close> is after \<^verbatim>\<open>build_woq_model\<close> the module it was
  before, for every configuration: it is neither replaced nor changed inside.
\<close>

theorem build_woq_model_keeps_heads:
  assumes "well_formed model" and "get_module model p = Some m"
    and "head_name (qualified_name p)"
  shows "get_module (build_woq_model lib model qc) p = Some m"
proof -
  have "get_module (fold (woq_step lib qc) (named_modules [] model) model) p
          = get_module model p"
  proof (rule fold_woq_step_frame)
    fix q y f
    assume in_model: "(q, y) \<in> set (named_modules [] model)"
      and linear: "linear_features y = Some f"
      and not_head: "\<not> head_name (qualified_name q)"
    from named_modules_get(1) [OF assms(1) in_model]
    have q: "get_module model q = Some y" by simp
    have "\<not> prefix q p"
    proof
      assume "prefix q p"
      from linear_is_leaf [OF q linear assms(2) this] assms(3) not_head show False by simp
    qed
    moreover have "\<not> prefix p q"
      using head_name_prefix [OF _ assms(3)] not_head by blast
    ultimately show "\<not> prefix q p \<and> \<not> prefix p q" by simp
  qed
  with assms(2) show ?thesis by (simp add: build_woq_model_def)
qed

lemma example_model_heads:
  "well_formed example_model"
  "get_module example_model [''lm_head''] = Some (Linear 4 8 False)"
  "head_name (qualified_name [''lm_head''])"
  by (simp_all add: example_model_def head_name_def)

theorem build_woq_model_keeps_heads_witness:
  "get_module (build_woq_model example_library example_model (example_config (Some 4) None None))
       [''lm_head'']
     = Some (Linear 4 8 False) \<and>
   get_module (build_woq_model example_library example_model (example_config (Some 4) None None))
       [''layer'', ''mlp'']
     = Some (woq_module example_library (example_config (Some 4) None None) 4 2 False) \<and>
   get_module (build_woq_model example_library example_model (example_config (Some 4) None None))
       [''layer'', ''qmlp'']
     = Some (woq_module example_library (example_config (Some 4) None None) 4 2 False)"
proof -
  have "get_module (build_woq_model example_library example_model (example_config (Some 4) None None))
       [''layer'', ''mlp'']
     = Some (woq_module example_library (example_config (Some 4) None None) 4 2 False)"
    and "get_module (build_woq_model example_library example_model (example_config (Some 4) None None))
       [''layer'', ''qmlp'']
     = Some (woq_module example_library (example_config (Some 4) None None) 4 2 False)"
    by (simp_all add: build_woq_model_def example_model_def woq_step_def head_name_def
        example_qparms_def)
  with build_woq_model_keeps_heads [OF example_model_heads] show ?thesis by simp
qed

section \<open>Properties of the dispatcher\<close>

lemma and_then_Inr:
  "snd (and_then m f) = Inr y \<longleftrightarrow> (\<exists>x. snd m = Inr x \<and> snd (f x) = Inr y)"
  by (cases m; cases "snd m") (auto simp: and_then_def split: prod.splits)

lemma load_gguf_not_rtn: "snd (load_gguf rq) \<noteq> Inr (Neural_speed_rtn c')"
  by (simp add: load_gguf_def Let_def split: option.splits)

lemma neural_speed_reload_not_rtn:
  "snd (neural_speed_reload rt rq d) \<noteq> Inr (Neural_speed_rtn c')"
  by (auto simp: neural_speed_reload_def and_then_Inr)

lemma load_persisted_not_rtn: "snd (load_persisted rt rq ns d) \<noteq> Inr (Neural_speed_rtn c')"
  by (auto simp: load_persisted_def neural_speed_reload_not_rtn low_bit_reload_def
      split: option.splits)

lemma low_bit_flags_config:
  assumes "quantization_config rq = Some c" and "snd (low_bit_flags rt rq ns) = Inr r"
  shows "r = Inl Bitsandbytes_model \<or> r = Inr (Some c)"
  using assms
  by (auto simp: low_bit_flags_def Let_def split: if_splits option.splits)

lemma dispatch_rtn:
  "snd (dispatch rt ns (Some c)) = Inr (Neural_speed_rtn c') \<Longrightarrow> kind c = RtnConfig"
  by (auto simp: dispatch_def weight_only_quantization_def Let_def split: if_splits sum.splits)

lemma low_bit_flags_plain:
  assumes "\<not> load_in_8bit rq" and "\<not> load_in_4bit rq" and "quantization_config rq = Some c"
    and "kind c \<noteq> BitsAndBytesConfig"
  shows "low_bit_flags rt rq ns = ([], Inr (Inr (Some c)))"
  using assms by (simp add: low_bit_flags_def Let_def)

lemma low_bit_flags_bitsandbytes:
  assumes "load_in_8bit rq \<or> load_in_4bit rq" and "quantization_config rq = Some c"
    and "kind c \<noteq> BitsAndBytesConfig"
    and "accelerate_available rt \<and> bitsandbytes_available rt
           \<and> device_map rq \<noteq> ''cpu'' \<and> device_map rq \<noteq> ''xpu''"
  shows "low_bit_flags rt rq ns
           = ([(LInfo, ''WeightOnlyQuant bitsandbytes done.'')], Inr (Inl Bitsandbytes_model))"
  using assms by (simp add: low_bit_flags_def Let_def)

lemma low_bit_flags_checked:
  assumes "quantization_config rq = Some c" and "kind c \<noteq> BitsAndBytesConfig"
    and "\<not> (accelerate_available rt \<and> bitsandbytes_available rt
              \<and> device_map rq \<noteq> ''cpu'' \<and> device_map rq \<noteq> ''xpu'')"
  shows "snd (low_bit_flags rt rq ns) = Inr (Inr (Some c))
           \<or> (\<exists>msg. snd (low_bit_flags rt rq ns) = Inl (AssertionError msg))
           \<or> (\<exists>msg. snd (low_bit_flags rt rq ns) = Inl (TypeError msg))"
  using assms by (auto simp: low_bit_flags_def Let_def split: option.splits)

lemma dispatch_refuses:
  assumes "kind c \<in> set [AwqConfig, TeqConfig, GPTQConfig, AutoRoundConfig]"
  shows "dispatch rt True (Some c) =
     ([(LInfo, ''Applying Weight Only Quantization.''),
       (LError, ''Only Supports RTN Quantization in Neural Speed.'')], Inl SystemExit)"
  using assms
  by (auto simp: dispatch_def weight_only_kinds_def weight_only_quantization_def)

lemma from_pretrained_fresh:
  assumes "model_file rq = None" and "\<not> use_embedding_runtime rq"
    and "snd (select_neural_speed rq) = Inr ns"
    and "\<forall>d. persisted_config rq \<noteq> Attribute_dict d"
  shows "snd (from_pretrained rt rq) =
     (case snd (low_bit_flags rt rq ns) of
        Inl e \<Rightarrow> Inl e
      | Inr (Inl model) \<Rightarrow> Inr model
      | Inr (Inr q) \<Rightarrow> snd (dispatch rt ns q))"
    and "\<And>q. snd (low_bit_flags rt rq ns) = Inr (Inr q)
           \<Longrightarrow> set (fst (dispatch rt ns q)) \<subseteq> set (fst (from_pretrained rt rq))"
proof -
  from assms(3) obtain l where s: "select_neural_speed rq = (l, Inr ns)"
    by (cases "select_neural_speed rq") auto
  obtain l1 r1 where f: "low_bit_flags rt rq ns = (l1, r1)"
    by (cases "low_bit_flags rt rq ns")
  from assms(4)
  have p: "persisted_config rq = No_attribute \<or> persisted_config rq = Attribute_None"
    by (cases "persisted_config rq") auto
  show "snd (from_pretrained rt rq) =
     (case snd (low_bit_flags rt rq ns) of
        Inl e \<Rightarrow> Inl e
      | Inr (Inl model) \<Rightarrow> Inr model
      | Inr (Inr q) \<Rightarrow> snd (dispatch rt ns q))"
    using assms(1,2) p
    by (auto simp: from_pretrained_def s f and_then_def split: sum.splits prod.splits)
  show "set (fst (dispatch rt ns q)) \<subseteq> set (fst (from_pretrained rt rq))"
    if "snd (low_bit_flags rt rq ns) = Inr (Inr q)" for q
    using assms(1,2) p that
    by (auto simp: from_pretrained_def s f and_then_def split: sum.splits prod.splits)
qed

text \<open>
  C3 (as amended). A request that passes an AWQ, TEQ, GPTQ or AutoRound config is never
  answered with the neural-speed RTN model. When neural speed is selected, no GGUF file
  and no embedding runtime are asked for and the checkpoint carries no persisted
  quantization config, the load logs the error and exits; only with \<^verbatim>\<open>load_in_4bit\<close>
  or \<^verbatim>\<open>load_in_8bit\<close> set can it end before that, with the bitsandbytes model where
  accelerate and bitsandbytes are available on a device other than cpu and xpu, and
  elsewhere with the \<^verbatim>\<open>AssertionError\<close> or \<^verbatim>\<open>TypeError\<close> of the checks on the flags.
  When the checkpoint carries a persisted quantization config of a method other than
  dynamic, static and qat, neural speed loads it with the config that was passed:
  with \<^verbatim>\<open>use_gptq\<close> for GPTQ and AutoRound, and with \<^verbatim>\<open>use_awq\<close> for AWQ.
\<close>

theorem neural_speed_refuses_other_methods:
  assumes qc: "quantization_config rq = Some c"
    and k: "kind c \<in> set [AwqConfig, TeqConfig, GPTQConfig, AutoRoundConfig]"
  shows
    "(model_file rq = None \<and> \<not> use_embedding_runtime rq
        \<and> snd (select_neural_speed rq) = Inr True
        \<and> (\<forall>d. persisted_config rq \<noteq> Attribute_dict d) \<longrightarrow>
      (\<not> load_in_8bit rq \<and> \<not> load_in_4bit rq \<longrightarrow>
         snd (from_pretrained rt rq) = Inl SystemExit
           \<and> (LError, ''Only Supports RTN Quantization in Neural Speed.'')
                 \<in> set (fst (from_pretrained rt rq))) \<and>
      ((load_in_8bit rq \<or> load_in_4bit rq)
         \<and> accelerate_available rt \<and> bitsandbytes_available rt
         \<and> device_map rq \<noteq> ''cpu'' \<and> device_map rq \<noteq> ''xpu'' \<longrightarrow>
         snd (from_pretrained rt rq) = Inr Bitsandbytes_model) \<and>
      (\<not> (accelerate_available rt \<and> bitsandbytes_available rt
            \<and> device_map rq \<noteq> ''cpu'' \<and> device_map rq \<noteq> ''xpu'') \<longrightarrow>
         snd (from_pretrained rt rq) = Inl SystemExit
           \<and> (LError, ''Only Supports RTN Quantization in Neural Speed.'')
                 \<in> set (fst (from_pretrained rt rq))
         \<or> (\<exists>msg. snd (from_pretrained rt rq) = Inl (AssertionError msg))
         \<or> (\<exists>msg. snd (from_pretrained rt rq) = Inl (TypeError msg)))) \<and>
     (\<forall>c'. snd (from_pretrained rt rq) \<noteq> Inr (Neural_speed_rtn c')) \<and>
     (\<forall>d m. model_file rq = None \<and> \<not> use_embedding_runtime rq
        \<and> snd (select_neural_speed rq) = Inr True
        \<and> persisted_config rq = Attribute_dict d \<and> quant_method d = Some m
        \<and> m \<notin> set [''dynamic'', ''static'', ''qat''] \<longrightarrow>
      snd (from_pretrained rt rq)
        = Inr (Neural_speed_low_bit c (kind c = GPTQConfig \<or> kind c = AutoRoundConfig)
                 (kind c = AwqConfig)))"
proof -
  from k have nb: "kind c \<noteq> BitsAndBytesConfig" by auto
  from k have nr: "kind c \<noteq> RtnConfig" by auto
  have exits: "snd (from_pretrained rt rq) = Inl SystemExit
        \<and> (LError, ''Only Supports RTN Quantization in Neural Speed.'')
              \<in> set (fst (from_pretrained rt rq))"
    if a: "model_file rq = None \<and> \<not> use_embedding_runtime rq
        \<and> snd (select_neural_speed rq) = Inr True
        \<and> (\<forall>d. persisted_config rq \<noteq> Attribute_dict d)"
      and f: "snd (low_bit_flags rt rq True) = Inr (Inr (Some c))"
  proof -
    from a have g1: "model_file rq = None" and g2: "\<not> use_embedding_runtime rq"
      and g3: "snd (select_neural_speed rq) = Inr True"
      and g4: "\<forall>d. persisted_config rq \<noteq> Attribute_dict d" by simp_all
    from from_pretrained_fresh(1) [OF g1 g2 g3 g4, of rt] f
    have "snd (from_pretrained rt rq) = Inl SystemExit"
      by (simp add: dispatch_refuses [OF k])
    moreover from from_pretrained_fresh(2) [OF g1 g2 g3 g4 f]
    have "(LError, ''Only Supports RTN Quantization in Neural Speed.'')
              \<in> set (fst (from_pretrained rt rq))"
      by (simp add: dispatch_refuses [OF k])
    ultimately show ?thesis by simp
  qed
  have A1: "snd (from_pretrained rt rq) = Inl SystemExit
        \<and> (LError, ''Only Supports RTN Quantization in Neural Speed.'')
              \<in> set (fst (from_pretrained rt rq))"
    if a: "model_file rq = None \<and> \<not> use_embedding_runtime rq
        \<and> snd (select_neural_speed rq) = Inr True
        \<and> (\<forall>d. persisted_config rq \<noteq> Attribute_dict d)"
      and b: "\<not> load_in_8bit rq \<and> \<not> load_in_4bit rq"
  proof (rule exits [OF a])
    from b low_bit_flags_plain [OF _ _ qc nb, of rt True]
    show "snd (low_bit_flags rt rq True) = Inr (Inr (Some c))" by simp
  qed
  have A2: "snd (from_pretrained rt rq) = Inr Bitsandbytes_model"
    if a: "model_file rq = None \<and> \<not> use_embedding_runtime rq
        \<and> snd (select_neural_speed rq) = Inr True
        \<and> (\<forall>d. persisted_config rq \<noteq> Attribute_dict d)"
      and b: "(load_in_8bit rq \<or> load_in_4bit rq)
         \<and> accelerate_available rt \<and> bitsandbytes_available rt
         \<and> device_map rq \<noteq> ''cpu'' \<and> device_map rq \<noteq> ''xpu''"
  proof -
    from a have g1: "model_file rq = None" and g2: "\<not> use_embedding_runtime rq"
      and g3: "snd (select_neural_speed rq) = Inr True"
      and g4: "\<forall>d. persisted_config rq \<noteq> Attribute_dict d" by simp_all
    from b have "load_in_8bit rq \<or> load_in_4bit rq"
      and "accelerate_available rt \<and> bitsandbytes_available rt
             \<and> device_map rq \<noteq> ''cpu'' \<and> device_map rq \<noteq> ''xpu''" by simp_all
    from low_bit_flags_bitsandbytes [OF this(1) qc nb this(2), of True]
    show ?thesis
      by (simp add: from_pretrained_fresh(1) [OF g1 g2 g3 g4])
  qed
  have A3: "snd (from_pretrained rt rq) = Inl SystemExit
           \<and> (LError, ''Only Supports RTN Quantization in Neural Speed.'')
                 \<in> set (fst (from_pretrained rt rq))
         \<or> (\<exists>msg. snd (from_pretrained rt rq) = Inl (AssertionError msg))
         \<or> (\<exists>msg. snd (from_pretrained rt rq) = Inl (TypeError msg))"
    if a: "model_file rq = None \<and> \<not> use_embedding_runtime rq
        \<and> snd (select_neural_speed rq) = Inr True
        \<and> (\<forall>d. persisted_config rq \<noteq> Attribute_dict d)"
      and b: "\<not> (accelerate_available rt \<and> bitsandbytes_available rt
            \<and> device_map rq \<noteq> ''cpu'' \<and> device_map rq \<noteq> ''xpu'')"
  proof -
    from a have g1: "model_file rq = None" and g2: "\<not> use_embedding_runtime rq"
      and g3: "snd (select_neural_speed rq) = Inr True"
      and g4: "\<forall>d. persisted_config rq \<noteq> Attribute_dict d" by simp_all
    from low_bit_flags_checked [OF qc nb b, of True]
    consider "snd (low_bit_flags rt rq True) = Inr (Inr (Some c))"
      | msg where "snd (low_bit_flags rt rq True) = Inl (AssertionError msg)"
      | msg where "snd (low_bit_flags rt rq True) = Inl (TypeError msg)"
      by blast
    then show ?thesis
    proof cases
      case 1
      from exits [OF a 1] show ?thesis by simp
    next
      case (2 msg)
      then have "snd (from_pretrained rt rq) = Inl (AssertionError msg)"
        by (simp add: from_pretrained_fresh(1) [OF g1 g2 g3 g4])
      then show ?thesis by blast
    next
      case (3 msg)
      then have "snd (from_pretrained rt rq) = Inl (TypeError msg)"
        by (simp add: from_pretrained_fresh(1) [OF g1 g2 g3 g4])
      then show ?thesis by blast
    qed
  qed
  have B: "snd (from_pretrained rt rq) \<noteq> Inr (Neural_speed_rtn c')" for c'
  proof
    assume e: "snd (from_pretrained rt rq) = Inr (Neural_speed_rtn c')"
    have g: "model_file rq = None"
    proof (rule ccontr)
      assume "model_file rq \<noteq> None"
      with e load_gguf_not_rtn show False by (simp add: from_pretrained_def)
    qed
    have u: "\<not> use_embedding_runtime rq"
    proof
      assume "use_embedding_runtime rq"
      with e g show False by (simp add: from_pretrained_def)
    qed
    show False
    proof (cases "persisted_config rq")
      case (Attribute_dict d)
      with e g u show ?thesis
        by (auto simp: from_pretrained_def and_then_Inr load_persisted_not_rtn)
    next
      case No_attribute
      with e g u obtain ns r where "snd (low_bit_flags rt rq ns) = Inr r"
        and "snd (case r of Inl model \<Rightarrow> ([], Inr model) | Inr qc \<Rightarrow> dispatch rt ns qc)
               = Inr (Neural_speed_rtn c')"
        by (auto simp: from_pretrained_def and_then_Inr)
      with low_bit_flags_config [OF qc] dispatch_rtn nr show ?thesis by fastforce
    next
      case Attribute_None
      with e g u obtain ns r where "snd (low_bit_flags rt rq ns) = Inr r"
        and "snd (case r of Inl model \<Rightarrow> ([], Inr model) | Inr qc \<Rightarrow> dispatch rt ns qc)
               = Inr (Neural_speed_rtn c')"
        by (auto simp: from_pretrained_def and_then_Inr)
      with low_bit_flags_config [OF qc] dispatch_rtn nr show ?thesis by fastforce
    qed
  qed
  have C: "snd (from_pretrained rt rq)
        = Inr (Neural_speed_low_bit c (kind c = GPTQConfig \<or> kind c = AutoRoundConfig)
                 (kind c = AwqConfig))"
    if a: "model_file rq = None \<and> \<not> use_embedding_runtime rq
        \<and> snd (select_neural_speed rq) = Inr True
        \<and> persisted_config rq = Attribute_dict d \<and> quant_method d = Some m
        \<and> m \<notin> set [''dynamic'', ''static'', ''qat'']" for d m
  proof -
    from a obtain l where s: "select_neural_speed rq = (l, Inr True)"
      by (cases "select_neural_speed rq") auto
    from a have "load_persisted rt rq True d = neural_speed_reload rt rq d"
      by (simp add: load_persisted_def)
    moreover from k
    have "neural_speed_reload rt rq d
           = ([], Inr (Neural_speed_low_bit c (kind c = GPTQConfig \<or> kind c = AutoRoundConfig)
                         (kind c = AwqConfig)))"
      by (auto simp: neural_speed_reload_def qc and_then_def)
    ultimately show ?thesis
      using a by (simp add: from_pretrained_def s and_then_def)
  qed
  show ?thesis
    apply (intro conjI impI allI)
         apply (erule (1) A1 [THEN conjunct1])
        apply (erule (1) A1 [THEN conjunct2])
       apply (erule (1) A2)
      apply (erule (1) A3)
     apply (rule B)
    apply (erule C)
    done
qed

lemma example_request_simps:
  "quantization_config (example_request p) = Some gptq_config"
  "kind gptq_config \<in> set [AwqConfig, TeqConfig, GPTQConfig, AutoRoundConfig]"
  "model_file (example_request p) = None \<and> \<not> use_embedding_runtime (example_request p)
     \<and> snd (select_neural_speed (example_request p)) = Inr True
     \<and> (\<forall>d. persisted_config (example_request No_attribute) \<noteq> Attribute_dict d)
     \<and> \<not> load_in_8bit (example_request p) \<and> \<not> load_in_4bit (example_request p)"
  "persisted_config (example_request p) = p"
  by (simp_all add: example_request_def gptq_config_def select_neural_speed_def)

theorem neural_speed_refuses_other_methods_witness:
  "snd (from_pretrained example_runtime (example_request No_attribute)) = Inl SystemExit \<and>
   (LError, ''Only Supports RTN Quantization in Neural Speed.'')
     \<in> set (fst (from_pretrained example_runtime (example_request No_attribute))) \<and>
   snd (from_pretrained example_runtime (example_request (Attribute_dict gptq_checkpoint)))
     = Inr (Neural_speed_low_bit gptq_config True False) \<and>
   snd (from_pretrained
          (example_runtime\<lparr>accelerate_available := True, bitsandbytes_available := True\<rparr>)
          ((example_request No_attribute)\<lparr>load_in_8bit := True, device_map := ''cuda''\<rparr>))
     = Inr Bitsandbytes_model"
proof -
  let ?rt = "example_runtime\<lparr>accelerate_available := True, bitsandbytes_available := True\<rparr>"
  let ?rq = "(example_request No_attribute)\<lparr>load_in_8bit := True, device_map := ''cuda''\<rparr>"
  have "quant_method gptq_checkpoint = Some ''gptq''"
    and "kind gptq_config = GPTQConfig"
    by (simp_all add: gptq_checkpoint_def gptq_config_def)
  with neural_speed_refuses_other_methods
          [OF example_request_simps(1,2), of No_attribute example_runtime]
       neural_speed_refuses_other_methods
          [OF example_request_simps(1,2), of "Attribute_dict gptq_checkpoint" example_runtime]
       example_request_simps(3) [of No_attribute]
       example_request_simps(3) [of "Attribute_dict gptq_checkpoint"]
       example_request_simps(4) [of "Attribute_dict gptq_checkpoint"]
  have first: "snd (from_pretrained example_runtime (example_request No_attribute))
       = Inl SystemExit \<and>
     (LError, ''Only Supports RTN Quantization in Neural Speed.'')
       \<in> set (fst (from_pretrained example_runtime (example_request No_attribute))) \<and>
     snd (from_pretrained example_runtime (example_request (Attribute_dict gptq_checkpoint)))
       = Inr (Neural_speed_low_bit gptq_config True False)"
    by simp
  have q: "quantization_config ?rq = Some gptq_config"
    by (simp add: example_request_def)
  have r: "model_file ?rq = None \<and> \<not> use_embedding_runtime ?rq
     \<and> snd (select_neural_speed ?rq) = Inr True
     \<and> (\<forall>d. persisted_config ?rq \<noteq> Attribute_dict d)
     \<and> load_in_8bit ?rq \<and> device_map ?rq = ''cuda''
     \<and> accelerate_available ?rt \<and> bitsandbytes_available ?rt"
    by (simp add: example_request_def select_neural_speed_def)
  from neural_speed_refuses_other_methods [OF q example_request_simps(2), of ?rt] r
  have "snd (from_pretrained ?rt ?rq) = Inr Bitsandbytes_model" by simp
  with first show ?thesis by simp
qed

text \<open>
  C3 as the claim states it fails for a checkpoint that carries a persisted config: with
  neural speed selected and a GPTQ config passed, the load returns the neural-speed
  model, built with \<^verbatim>\<open>use_gptq=True\<close>.
\<close>

theorem neural_speed_reload_counterexample:
  "from_pretrained example_runtime (example_request (Attribute_dict gptq_checkpoint))
     = ([], Inr (Neural_speed_low_bit gptq_config True False))"
  by (simp add: from_pretrained_def example_request_def select_neural_speed_def and_then_def
      load_persisted_def gptq_checkpoint_def neural_speed_reload_def gptq_config_def)

section \<open>Properties of saving\<close>

text \<open>
  C9. When \<^verbatim>\<open>save_directory\<close> is an existing file, \<^verbatim>\<open>save_low_bit\<close> leaves the model
  and the file system as they were; on a model that has a \<^verbatim>\<open>quantization_config\<close> it
  logs the error and returns (on one that has none, its assertion has failed before).
\<close>

theorem save_low_bit_file_path:
  assumes "save_directory \<in> files fs"
  shows
    "fst (snd (save_low_bit lib self save_directory push_to_hub use_auth_token fs)) = self \<and>
     fst (snd (snd (save_low_bit lib self save_directory push_to_hub use_auth_token fs))) = fs \<and>
     (lb_quantization_config self \<noteq> None \<longrightarrow>
        save_low_bit lib self save_directory push_to_hub use_auth_token fs =
          (None, self, fs,
           [(LError, ''Provided path ('' @ save_directory @ '') should be a directory, not a file'')]))"
  using assms by (cases "lb_quantization_config self") (simp_all add: save_low_bit_def)

theorem save_low_bit_file_path_witness:
  "save_low_bit example_library example_low_bit_model ''out/model.bin'' False None example_files =
     (None, example_low_bit_model, example_files,
      [(LError, ''Provided path (out/model.bin) should be a directory, not a file'')]) \<and>
   contiguous (fst (snd (save_low_bit example_library example_low_bit_model ''out'' False None
                           example_files)))"
proof -
  have f: "''out/model.bin'' \<in> files example_files"
    and q: "lb_quantization_config example_low_bit_model \<noteq> None"
    by (simp_all add: example_files_def example_low_bit_model_def)
  have "contiguous (fst (snd (save_low_bit example_library example_low_bit_model ''out'' False None
                           example_files)))"
    by (simp add: save_low_bit_def example_files_def example_low_bit_model_def
        convert_model_to_public_def Let_def)
  with save_low_bit_file_path [OF f, of example_library example_low_bit_model False None] q
  show ?thesis by simp
qed

end
